theory Spec2Isabelle
  imports Complex_Main
begin

section \<open>Distance-bounds construction from molecular topology\<close>

text \<open>
  A shallow embedding of \<^verbatim>\<open>Code/GraphMol/DistGeomHelpers/BoundsMatrixBuilder.cpp\<close>.
  C++ \<^verbatim>\<open>double\<close> values are modelled as HOL reals, so rounding is not represented;
  \<^verbatim>\<open>unsigned int\<close> arithmetic that the source performs in 32 bits is written with an
  explicit \<open>mod 2 ^ 32\<close>, and 64-bit arithmetic with \<open>mod 2 ^ 64\<close>.
  The leading underscore of the private helpers (\<^verbatim>\<open>_checkAndSetBounds\<close>, ...) is dropped,
  since an Isabelle name cannot start with one.
\<close>

subsection \<open>Tolerances\<close>

definition DIST12_DELTA :: real where "DIST12_DELTA = 1 / 100"
definition DIST13_TOL :: real where "DIST13_TOL = 4 / 100"
definition GEN_DIST_TOL :: real where "GEN_DIST_TOL = 6 / 100"
definition DIST15_TOL :: real where "DIST15_TOL = 8 / 100"
definition VDW_SCALE_15 :: real where "VDW_SCALE_15 = 7 / 10"
definition MAX_UPPER :: real where "MAX_UPPER = 1000"
definition minMacrocycleRingSize :: nat where "minMacrocycleRingSize = 9"

lemmas tol_defs =
  DIST12_DELTA_def DIST13_TOL_def GEN_DIST_TOL_def DIST15_TOL_def VDW_SCALE_15_def
  MAX_UPPER_def

subsection \<open>Exceptions\<close>

text \<open>
  \<^verbatim>\<open>CHECK_INVARIANT\<close>, \<^verbatim>\<open>PRECONDITION\<close> and the range checks of the molecule throw an
  invariant exception; the size checks throw \<^verbatim>\<open>ValueErrorException\<close>. The bounds matrix is
  shared with the caller, so what was written before a throw stays written: an error
  result carries the state reached when the exception left the function.

  Two more ways of not returning are kept apart from these. \<open>BadAlloc\<close> is the
  \<^verbatim>\<open>std::bad_alloc\<close> of an allocation that fails. \<open>OutOfRange\<close> stands for an index past
  the end of a \<^verbatim>\<open>boost::dynamic_bitset\<close>: the behaviour of the program is undefined from
  there on, and the model stops with the state reached.
\<close>

datatype error = InvariantViolation | ValueErrorException | BadAlloc | OutOfRange

datatype 'a result = Ok 'a | Err error 'a

fun result_state :: "'a result \<Rightarrow> 'a" where
  "result_state (Ok s) = s"
| "result_state (Err e s) = s"

fun is_ok :: "'a result \<Rightarrow> bool" where
  "is_ok (Ok s) = True"
| "is_ok (Err e s) = False"

fun bind_result :: "'a result \<Rightarrow> ('a \<Rightarrow> 'a result) \<Rightarrow> 'a result" where
  "bind_result (Ok s) f = f s"
| "bind_result (Err e s) f = Err e s"

fun mapResult :: "('a \<Rightarrow> 'b) \<Rightarrow> 'a result \<Rightarrow> 'b result" where
  "mapResult g (Ok s) = Ok (g s)"
| "mapResult g (Err e s) = Err e (g s)"

text \<open>A \<^verbatim>\<open>for\<close> loop whose body may throw: the first exception ends the loop.\<close>

fun for_each :: "('b \<Rightarrow> 'a \<Rightarrow> 'a result) \<Rightarrow> 'b list \<Rightarrow> 'a \<Rightarrow> 'a result" where
  "for_each body [] s = Ok s"
| "for_each body (x # xs) s = bind_result (body x s) (for_each body xs)"

subsection \<open>The bounds matrix\<close>

text \<open>
  Modelled from the spec: class \<^verbatim>\<open>DistGeom::BoundsMatrix\<close> (header
  \<^verbatim>\<open>DistGeom/BoundsMatrix.h\<close>, not among the sources). One square table packs both
  bounds: the upper triangle holds the upper bounds and the lower triangle the lower
  bounds, and both accessors take the indices in either order.
\<close>

record BoundsMatrix =
  numRows :: nat
  elems :: "nat \<times> nat \<Rightarrow> real"

definition getUpperBound :: "BoundsMatrix \<Rightarrow> nat \<Rightarrow> nat \<Rightarrow> real" where
  "getUpperBound mmat i j = (if i < j then elems mmat (i, j) else elems mmat (j, i))"

definition getLowerBound :: "BoundsMatrix \<Rightarrow> nat \<Rightarrow> nat \<Rightarrow> real" where
  "getLowerBound mmat i j = (if i < j then elems mmat (j, i) else elems mmat (i, j))"

definition setUpperBound :: "BoundsMatrix \<Rightarrow> nat \<Rightarrow> nat \<Rightarrow> real \<Rightarrow> BoundsMatrix" where
  "setUpperBound mmat i j v =
     mmat\<lparr>elems := (elems mmat)((if i < j then (i, j) else (j, i)) := v)\<rparr>"

definition setLowerBound :: "BoundsMatrix \<Rightarrow> nat \<Rightarrow> nat \<Rightarrow> real \<Rightarrow> BoundsMatrix" where
  "setLowerBound mmat i j v =
     mmat\<lparr>elems := (elems mmat)((if i < j then (j, i) else (i, j)) := v)\<rparr>"

text \<open>The index pairs of the loops \<^verbatim>\<open>for i in 1..npt-1, for j in 0..i-1\<close>, in loop order.\<close>

definition lowerTrianglePairs :: "nat \<Rightarrow> (nat \<times> nat) list" where
  "lowerTrianglePairs npt = concat (map (\<lambda>i. map (\<lambda>j. (i, j)) [0..<i]) [1..<npt])"

definition initBoundsMat :: "BoundsMatrix \<Rightarrow> real \<Rightarrow> real \<Rightarrow> BoundsMatrix" where
  "initBoundsMat mmat defaultMin defaultMax =
     foldl (\<lambda>m (i, j). setLowerBound (setUpperBound m i j defaultMax) i j defaultMin)
       mmat (lowerTrianglePairs (numRows mmat))"

subsection \<open>The bounds writer\<close>

definition checkAndSetBounds ::
  "nat \<Rightarrow> nat \<Rightarrow> real \<Rightarrow> real \<Rightarrow> BoundsMatrix \<Rightarrow> BoundsMatrix result" where
  "checkAndSetBounds i j lb ub mmat =
     (let clb = getLowerBound mmat i j;
          cub = getUpperBound mmat i j
      in if \<not> (ub > lb) then Err InvariantViolation mmat
         else if \<not> (lb > DIST12_DELTA \<or> clb > DIST12_DELTA) then Err InvariantViolation mmat
         else
           let m1 = (if clb \<le> DIST12_DELTA then setLowerBound mmat i j lb
                     else if lb < clb \<and> lb > DIST12_DELTA then setLowerBound mmat i j lb
                     else mmat);
               m2 = (if cub \<ge> MAX_UPPER then setUpperBound m1 i j ub
                     else if ub > cub \<and> ub < MAX_UPPER then setUpperBound m1 i j ub
                     else m1)
           in Ok m2)"

text \<open>
  One matrix is reached from another through the writer: by a sequence of successful
  calls of \<^verbatim>\<open>_checkAndSetBounds\<close>, each applied to the matrix the previous one left.
\<close>

inductive viaCheck :: "BoundsMatrix \<Rightarrow> BoundsMatrix \<Rightarrow> bool" where
  same: "viaCheck m m"
| step: "viaCheck m m1 \<Longrightarrow> checkAndSetBounds i j lb ub m1 = Ok m2 \<Longrightarrow> viaCheck m m2"

text \<open>The matrix \<open>g\<close> reads from the state a computation leaves is reached from \<open>m\<close>.\<close>

definition via :: "('s \<Rightarrow> BoundsMatrix) \<Rightarrow> BoundsMatrix \<Rightarrow> 's result \<Rightarrow> bool" where
  "via g m r = viaCheck m (g (result_state r))"

subsection \<open>The molecule view\<close>

text \<open>
  The molecule class, its atoms, bonds and ring information are declared in headers that
  are not among the sources. The records below hold what the code reads from them. The
  enumerations list the values the code and the interface description name, in the
  order of the library headers (the code compares \<^verbatim>\<open>stype > Bond::STEREOANY\<close>).
\<close>

datatype HybridizationType = SP | SP2 | SP3 | SP3D | SP3D2 | HYB_OTHER

datatype BondType = SINGLE | DOUBLE | TRIPLE | AROMATIC | BOND_OTHER

datatype BondStereo =
  STEREONONE | STEREOANY | STEREOZ | STEREOE | STEREOCIS | STEREOTRANS
  | STEREOATROPCW | STEREOATROPCCW

fun stereoRank :: "BondStereo \<Rightarrow> nat" where
  "stereoRank STEREONONE = 0"
| "stereoRank STEREOANY = 1"
| "stereoRank STEREOZ = 2"
| "stereoRank STEREOE = 3"
| "stereoRank STEREOCIS = 4"
| "stereoRank STEREOTRANS = 5"
| "stereoRank STEREOATROPCW = 6"
| "stereoRank STEREOATROPCCW = 7"

text \<open>
  \<open>totalNumHs\<close> is \<^verbatim>\<open>getTotalNumHs(true)\<close> (hydrogen neighbours included),
  \<open>nonTetrahedralStereo\<close> is \<^verbatim>\<open>Chirality::hasNonTetrahedralStereo(atom)\<close> and
  \<open>chiralPermutation\<close> is \<^verbatim>\<open>atom->hasProp(common_properties::_chiralPermutation)\<close>.
\<close>

record Atom =
  atomicNum :: nat
  hybridization :: HybridizationType
  totalNumHs :: nat
  nonTetrahedralStereo :: bool
  chiralPermutation :: bool

record Bond =
  beginAtomIdx :: nat
  endAtomIdx :: nat
  bondType :: BondType
  bondTypeAsDouble :: real
  isConjugated :: bool
  stereo :: BondStereo
  stereoAtoms :: "nat list"

text \<open>
  A bond's index is its position in \<open>bonds\<close>, an atom's its position in \<open>atoms\<close>.
  The ring queries below are computed from the two ring lists; the precondition of the
  library's queries that ring perception has run is kept only where the source tests it
  itself (\<^verbatim>\<open>isInitialized()\<close> in \<^verbatim>\<open>set12Bounds\<close>).
\<close>

record ROMol =
  atoms :: "Atom list"
  bonds :: "Bond list"
  ringInfoInitialized :: bool
  atomRings :: "nat list list"
  bondRings :: "nat list list"

definition getNumAtoms :: "ROMol \<Rightarrow> nat" where
  "getNumAtoms mol = length (atoms mol)"

definition getNumBonds :: "ROMol \<Rightarrow> nat" where
  "getNumBonds mol = length (bonds mol)"

text \<open>\<^verbatim>\<open>getAtomWithIdx\<close> and \<^verbatim>\<open>getBondWithIdx\<close> throw on an index out of range.\<close>

definition getAtomWithIdx :: "ROMol \<Rightarrow> nat \<Rightarrow> Atom option" where
  "getAtomWithIdx mol idx = (if idx < getNumAtoms mol then Some (atoms mol ! idx) else None)"

definition getBondWithIdx :: "ROMol \<Rightarrow> nat \<Rightarrow> Bond option" where
  "getBondWithIdx mol idx = (if idx < getNumBonds mol then Some (bonds mol ! idx) else None)"

text \<open>\<^verbatim>\<open>Bond::getOtherAtomIdx\<close> has the precondition that the index is one of the two ends.\<close>

definition getOtherAtomIdx :: "Bond \<Rightarrow> nat \<Rightarrow> nat option" where
  "getOtherAtomIdx bnd thisIdx =
     (if beginAtomIdx bnd = thisIdx then Some (endAtomIdx bnd)
      else if endAtomIdx bnd = thisIdx then Some (beginAtomIdx bnd)
      else None)"

definition bondJoins :: "Bond \<Rightarrow> nat \<Rightarrow> nat \<Rightarrow> bool" where
  "bondJoins bnd a b =
     ((beginAtomIdx bnd = a \<and> endAtomIdx bnd = b) \<or> (beginAtomIdx bnd = b \<and> endAtomIdx bnd = a))"

text \<open>\<^verbatim>\<open>getBondBetweenAtoms\<close>: the index of the bond joining two atoms, if there is one.\<close>

definition getBondBetweenAtoms :: "ROMol \<Rightarrow> nat \<Rightarrow> nat \<Rightarrow> nat option" where
  "getBondBetweenAtoms mol a b =
     List.find (\<lambda>bid. bondJoins (bonds mol ! bid) a b) [0..<getNumBonds mol]"

text \<open>The bonds at an atom, in index order (\<^verbatim>\<open>getAtomBonds\<close>, \<^verbatim>\<open>atomBonds\<close>).\<close>

definition atomBonds :: "ROMol \<Rightarrow> nat \<Rightarrow> nat list" where
  "atomBonds mol aid =
     filter (\<lambda>bid. beginAtomIdx (bonds mol ! bid) = aid \<or> endAtomIdx (bonds mol ! bid) = aid)
       [0..<getNumBonds mol]"

definition getDegree :: "ROMol \<Rightarrow> nat \<Rightarrow> nat" where
  "getDegree mol aid = length (atomBonds mol aid)"

text \<open>The neighbours of an atom, in the order of its bonds.\<close>

definition atomNeighbors :: "ROMol \<Rightarrow> nat \<Rightarrow> nat list" where
  "atomNeighbors mol aid =
     map (\<lambda>bid. if beginAtomIdx (bonds mol ! bid) = aid then endAtomIdx (bonds mol ! bid)
                else beginAtomIdx (bonds mol ! bid))
       (atomBonds mol aid)"

definition numAtomRings :: "ROMol \<Rightarrow> nat \<Rightarrow> nat" where
  "numAtomRings mol aid = length (filter (\<lambda>r. aid \<in> set r) (atomRings mol))"

definition numBondRings :: "ROMol \<Rightarrow> nat \<Rightarrow> nat" where
  "numBondRings mol bid = length (filter (\<lambda>r. bid \<in> set r) (bondRings mol))"

definition isAtomInRingOfSize :: "ROMol \<Rightarrow> nat \<Rightarrow> nat \<Rightarrow> bool" where
  "isAtomInRingOfSize mol aid sz = (\<exists>r \<in> set (atomRings mol). aid \<in> set r \<and> length r = sz)"

definition isBondInRingOfSize :: "ROMol \<Rightarrow> nat \<Rightarrow> nat \<Rightarrow> bool" where
  "isBondInRingOfSize mol bid sz = (\<exists>r \<in> set (bondRings mol). bid \<in> set r \<and> length r = sz)"

subsection \<open>External tables and geometry\<close>

text \<open>
  The force-field parameters, the periodic table, the distance formulas of
  \<^verbatim>\<open>RDGeom\<close>, the ideal ligand angles and the topological distance matrix are computed
  outside this file. They enter the model as parameters: every theorem holds for
  whatever these functions return. \<open>AtomicParams\<close> stands for a pointer to an atom's
  parameter set (named by its atom-type label); \<open>None\<close> is the null pointer.
  \<open>getDistanceMat\<close> is the flat array returned by \<^verbatim>\<open>MolOps::getDistanceMat\<close>.
  \<open>allocates na nb\<close> tells whether the memory for \<^verbatim>\<open>ComputedData(na, nb)\<close> (two
  \<open>nb \<times> nb\<close> symmetric tables) and for the distance matrix can be had.
\<close>

type_synonym AtomicParams = string

record Externals =
  getAtomTypes :: "AtomicParams option list"
  calcBondRestLength :: "real \<Rightarrow> AtomicParams \<Rightarrow> AtomicParams \<Rightarrow> real"
  getRvdw :: "nat \<Rightarrow> real"
  compute13Dist :: "real \<Rightarrow> real \<Rightarrow> real \<Rightarrow> real"
  compute14DistCis :: "real \<Rightarrow> real \<Rightarrow> real \<Rightarrow> real \<Rightarrow> real \<Rightarrow> real"
  compute14DistTrans :: "real \<Rightarrow> real \<Rightarrow> real \<Rightarrow> real \<Rightarrow> real \<Rightarrow> real"
  compute14Dist3D :: "real \<Rightarrow> real \<Rightarrow> real \<Rightarrow> real \<Rightarrow> real \<Rightarrow> real \<Rightarrow> real"
  getIdealAngleBetweenLigands :: "nat \<Rightarrow> nat \<Rightarrow> nat \<Rightarrow> real"
  getDistanceMat :: "nat \<Rightarrow> real"
  allocates :: "nat \<Rightarrow> nat \<Rightarrow> bool"

text \<open>An index computed in \<^verbatim>\<open>unsigned int\<close>, and one computed in 64 bits.\<close>

definition u32 :: "nat \<Rightarrow> nat" where
  "u32 n = n mod 2 ^ 32"

definition u64 :: "nat \<Rightarrow> nat" where
  "u64 n = n mod 2 ^ 64"

subsection \<open>Data accumulated across the passes\<close>

datatype Path14Type = CIS | TRANS | OTHER

fun path14TypeCode :: "Path14Type \<Rightarrow> nat" where
  "path14TypeCode CIS = 0"
| "path14TypeCode TRANS = 1"
| "path14TypeCode OTHER = 2"

record Path14Configuration =
  bid1 :: nat
  bid2 :: nat
  bid3 :: nat
  ptype :: Path14Type

text \<open>
  The two symmetric matrices are read and written through \<open>symmGet\<close> and \<open>symmSet\<close>,
  which store the entry of an unordered index pair once. \<open>set15Atoms\<close> is the set of
  the bits that are set in the bit set of that name, and \<open>set15AtomsSize\<close> its number of
  bits: the constructor computes \<^verbatim>\<open>nAtoms * nAtoms\<close> in \<^verbatim>\<open>unsigned int\<close>.
\<close>

definition symmGet :: "(nat \<times> nat \<Rightarrow> 'a) \<Rightarrow> nat \<Rightarrow> nat \<Rightarrow> 'a" where
  "symmGet m i j = m (max i j, min i j)"

definition symmSet :: "(nat \<times> nat \<Rightarrow> 'a) \<Rightarrow> nat \<Rightarrow> nat \<Rightarrow> 'a \<Rightarrow> (nat \<times> nat \<Rightarrow> 'a)" where
  "symmSet m i j v = m((max i j, min i j) := v)"

record ComputedData =
  bondLengths :: "real list"
  bondAdj :: "nat \<times> nat \<Rightarrow> int"
  bondAngles :: "nat \<times> nat \<Rightarrow> real"
  paths14 :: "Path14Configuration list"
  cisPaths :: "nat set"
  transPaths :: "nat set"
  set15Atoms :: "nat set"
  set15AtomsSize :: nat

definition newComputedData :: "nat \<Rightarrow> nat \<Rightarrow> ComputedData" where
  "newComputedData nAtoms nBonds =
     \<lparr>bondLengths = replicate nBonds 0,
      bondAdj = (\<lambda>p. - 1),
      bondAngles = (\<lambda>p. - 1),
      paths14 = [],
      cisPaths = {},
      transPaths = {},
      set15Atoms = {},
      set15AtomsSize = u32 (nAtoms * nAtoms)\<rparr>"

type_synonym BState = "BoundsMatrix \<times> ComputedData"

subsection \<open>Pass 1: bonded pairs\<close>

definition squishStep :: "ROMol \<Rightarrow> nat set \<Rightarrow> nat \<Rightarrow> nat set" where
  "squishStep mol squishAtoms bid =
     (let bond = bonds mol ! bid in
      if isConjugated bond
         \<and> (atomicNum (atoms mol ! beginAtomIdx bond) > 10
            \<or> atomicNum (atoms mol ! endAtomIdx bond) > 10)
         \<and> ringInfoInitialized mol
         \<and> isBondInRingOfSize mol bid 5
      then insert (endAtomIdx bond) (insert (beginAtomIdx bond) squishAtoms)
      else squishAtoms)"

definition set12Step :: "ROMol \<Rightarrow> Externals \<Rightarrow> nat set \<Rightarrow> BState \<Rightarrow> nat \<Rightarrow> BState" where
  "set12Step mol ext squishAtoms st bid =
     (let mmat = fst st; accumData = snd st;
          bond = bonds mol ! bid;
          begId = beginAtomIdx bond;
          endId = endAtomIdx bond;
          bOrder = bondTypeAsDouble bond
      in case (getAtomTypes ext ! begId, getAtomTypes ext ! endId) of
           (Some pb, Some pe) \<Rightarrow>
             if bOrder > 0 then
               let bl = calcBondRestLength ext bOrder pb pe;
                   extraSquish = (if begId \<in> squishAtoms \<or> endId \<in> squishAtoms then 2 / 10 else 0);
                   accumData' = accumData\<lparr>bondLengths := (bondLengths accumData)[bid := bl]\<rparr>;
                   m1 = setUpperBound mmat begId endId (bl + extraSquish + DIST12_DELTA);
                   m2 = setLowerBound m1 begId endId (bl - extraSquish - DIST12_DELTA)
               in (m2, accumData')
             else
               let vw1 = getRvdw ext (atomicNum (atoms mol ! begId));
                   vw2 = getRvdw ext (atomicNum (atoms mol ! endId));
                   bl = (vw1 + vw2) / 2;
                   accumData' = accumData\<lparr>bondLengths := (bondLengths accumData)[bid := bl]\<rparr>;
                   m1 = setUpperBound mmat begId endId (15 / 10 * bl);
                   m2 = setLowerBound m1 begId endId (5 / 10 * bl)
               in (m2, accumData')
         | _ \<Rightarrow>
             let vw1 = getRvdw ext (atomicNum (atoms mol ! begId));
                 vw2 = getRvdw ext (atomicNum (atoms mol ! endId));
                 bl = (vw1 + vw2) / 2;
                 accumData' = accumData\<lparr>bondLengths := (bondLengths accumData)[bid := bl]\<rparr>;
                 m1 = setUpperBound mmat begId endId (15 / 10 * bl);
                 m2 = setLowerBound m1 begId endId (5 / 10 * bl)
             in (m2, accumData'))"

definition set12Bounds :: "ROMol \<Rightarrow> Externals \<Rightarrow> BState \<Rightarrow> BState result" where
  "set12Bounds mol ext st =
     (let mmat = fst st; accumData = snd st; npt = numRows mmat in
      if npt \<noteq> getNumAtoms mol then Err InvariantViolation st
      else if \<not> (length (bondLengths accumData) \<ge> getNumBonds mol) then Err InvariantViolation st
      else if length (getAtomTypes ext) \<noteq> getNumAtoms mol then Err InvariantViolation st
      else
        let squishAtoms = foldl (squishStep mol) {} [0..<getNumBonds mol]
        in Ok (foldl (set12Step mol ext squishAtoms) st [0..<getNumBonds mol]))"

subsection \<open>Pass 5: van der Waals lower bounds\<close>

text \<open>The flag \<^verbatim>\<open>useTopolScaling\<close> has no name in the function's definition and is not read.\<close>

definition vdwStep :: "ROMol \<Rightarrow> Externals \<Rightarrow> (nat \<Rightarrow> real) \<Rightarrow> nat \<Rightarrow> BoundsMatrix \<Rightarrow> nat \<times> nat \<Rightarrow> BoundsMatrix" where
  "vdwStep mol ext dmat npt mmat p =
     (let i = fst p; j = snd p;
          vw1 = getRvdw ext (atomicNum (atoms mol ! i));
          vw2 = getRvdw ext (atomicNum (atoms mol ! j))
      in if getLowerBound mmat i j < DIST12_DELTA then
           if dmat (u32 (i * npt + j)) = 4 then
             setLowerBound mmat i j (VDW_SCALE_15 * (vw1 + vw2))
           else if dmat (u32 (i * npt + j)) = 5 then
             setLowerBound mmat i j ((VDW_SCALE_15 + 5 / 10 * (1 - VDW_SCALE_15)) * (vw1 + vw2))
           else setLowerBound mmat i j (vw1 + vw2)
         else mmat)"

definition setLowerBoundVDW ::
  "ROMol \<Rightarrow> Externals \<Rightarrow> bool \<Rightarrow> (nat \<Rightarrow> real) \<Rightarrow> BoundsMatrix \<Rightarrow> BoundsMatrix result" where
  "setLowerBoundVDW mol ext useTopolScaling dmat mmat =
     (let npt = numRows mmat in
      if npt \<noteq> getNumAtoms mol then Err InvariantViolation mmat
      else Ok (foldl (vdwStep mol ext dmat npt) mmat (lowerTrianglePairs npt)))"

subsection \<open>Ring angles and bond stereo\<close>

definition setRingAngle :: "HybridizationType \<Rightarrow> nat \<Rightarrow> real" where
  "setRingAngle aHyb ringSize =
     (if (aHyb = SP2 \<and> ringSize \<le> 8) \<or> ringSize = 3 \<or> ringSize = 4 then
        pi * (1 - 2 / real ringSize)
      else if aHyb = SP3 then
        (if ringSize = 5 then 104 * pi / 180 else 1095 / 10 * pi / 180)
      else if aHyb = SP3D then 105 * pi / 180
      else if aHyb = SP3D2 then 90 * pi / 180
      else 120 * pi / 180)"

fun flipStereo :: "BondStereo \<Rightarrow> BondStereo" where
  "flipStereo STEREOZ = STEREOE"
| "flipStereo STEREOE = STEREOZ"
| "flipStereo STEREOCIS = STEREOTRANS"
| "flipStereo STEREOTRANS = STEREOCIS"
| "flipStereo s = s"

definition getAtomStereo :: "Bond \<Rightarrow> nat \<Rightarrow> nat \<Rightarrow> BondStereo" where
  "getAtomStereo bnd aid1 aid4 =
     (let stype = stereo bnd in
      if stereoRank stype > stereoRank STEREOANY \<and> length (stereoAtoms bnd) \<ge> 2 then
        (if (stereoAtoms bnd ! 0 \<noteq> aid1) \<noteq> (stereoAtoms bnd ! 1 \<noteq> aid4) then flipStereo stype
         else stype)
      else stype)"

subsection \<open>Pass 2: 1-3 pairs\<close>

definition isLargerSP2Atom :: "ROMol \<Rightarrow> nat \<Rightarrow> bool" where
  "isLargerSP2Atom mol aid =
     (atomicNum (atoms mol ! aid) > 13 \<and> hybridization (atoms mol ! aid) = SP2
      \<and> numAtomRings mol aid \<noteq> 0)"

definition set13BoundsHelper ::
  "ROMol \<Rightarrow> Externals \<Rightarrow> nat \<Rightarrow> nat \<Rightarrow> nat \<Rightarrow> real \<Rightarrow> ComputedData \<Rightarrow> BoundsMatrix
     \<Rightarrow> BoundsMatrix result" where
  "set13BoundsHelper mol ext aid1 aid aid3 angle accumData mmat =
     (case (getBondBetweenAtoms mol aid1 aid, getBondBetweenAtoms mol aid aid3) of
        (Some b1, Some b2) \<Rightarrow>
          if \<not> (aid1 < getNumAtoms mol \<and> aid < getNumAtoms mol \<and> aid3 < getNumAtoms mol)
          then Err InvariantViolation mmat
          else
            let dl = compute13Dist ext (bondLengths accumData ! b1) (bondLengths accumData ! b2) angle;
                tol1 = (if isLargerSP2Atom mol aid1 then DIST13_TOL * 2 else DIST13_TOL);
                tol2 = (if isLargerSP2Atom mol aid then tol1 * 2 else tol1);
                distTol = (if isLargerSP2Atom mol aid3 then tol2 * 2 else tol2);
                du = dl + distTol
            in checkAndSetBounds aid1 aid3 (dl - distTol) du mmat
      | _ \<Rightarrow> Err InvariantViolation mmat)"

text \<open>
  The local arrays of \<^verbatim>\<open>set13Bounds\<close>: \<open>visited\<close> counts the angles assigned at an atom,
  \<open>angleTaken\<close> sums them, \<open>donePaths13\<close> holds the bond pairs already handled in a ring.
  \<open>donePaths13\<close> is the set of the bits that are set in \<^verbatim>\<open>BIT_SET donePaths(nb * nb)\<close>, whose
  size is computed in \<^verbatim>\<open>unsigned int\<close>; the two tests of a ring step read the first bit,
  and the second only when the first is not set.
\<close>

record Set13State =
  s13_mmat :: BoundsMatrix
  s13_accum :: ComputedData
  visited :: "nat \<Rightarrow> nat"
  angleTaken :: "nat \<Rightarrow> real"
  donePaths13 :: "nat set"

text \<open>What follows a successful 1-3 write at centre \<open>aid2\<close> between bonds \<open>b1\<close> and \<open>b2\<close>.\<close>

definition record13 :: "nat \<Rightarrow> nat \<Rightarrow> nat \<Rightarrow> real \<Rightarrow> Set13State \<Rightarrow> Set13State" where
  "record13 b1 b2 aid2 angle s =
     s\<lparr>s13_accum := (s13_accum s)
          \<lparr>bondAngles := symmSet (bondAngles (s13_accum s)) b1 b2 angle,
           bondAdj := symmSet (bondAdj (s13_accum s)) b1 b2 (int aid2)\<rparr>,
       visited := (visited s)(aid2 := visited s aid2 + 1),
       angleTaken := (angleTaken s)(aid2 := angleTaken s aid2 + angle)\<rparr>"

text \<open>The triples \<open>(aid1, aid2, aid3)\<close> met while walking a ring once.\<close>

definition ringTriples :: "nat list \<Rightarrow> (nat \<times> nat \<times> nat) list" where
  "ringTriples ring =
     map (\<lambda>i. (ring ! ((i + length ring - 1) mod length ring), ring ! i,
               ring ! ((i + 1) mod length ring)))
       [0..<length ring]"

definition set13RingStep ::
  "ROMol \<Rightarrow> Externals \<Rightarrow> nat \<Rightarrow> nat \<times> nat \<times> nat \<Rightarrow> Set13State \<Rightarrow> Set13State result" where
  "set13RingStep mol ext rSize t s =
     (let aid1 = fst t; aid2 = fst (snd t); aid3 = snd (snd t); nb = getNumBonds mol in
      case (getBondBetweenAtoms mol aid1 aid2, getBondBetweenAtoms mol aid2 aid3) of
        (Some b1, Some b2) \<Rightarrow>
          let id1 = u32 (nb * b1 + b2); id2 = u32 (nb * b2 + b1) in
          if \<not> id1 < u32 (nb * nb) then Err OutOfRange s
          else if id1 \<in> donePaths13 s then Ok s
          else if \<not> id2 < u32 (nb * nb) then Err OutOfRange s
          else if id2 \<in> donePaths13 s then Ok s
          else
            (case getAtomWithIdx mol aid2 of
               None \<Rightarrow> Err InvariantViolation s
             | Some atom \<Rightarrow>
                 let angle = setRingAngle (hybridization atom) rSize in
                 case set13BoundsHelper mol ext aid1 aid2 aid3 angle (s13_accum s) (s13_mmat s) of
                   Err e m \<Rightarrow> Err e (s\<lparr>s13_mmat := m\<rparr>)
                 | Ok m \<Rightarrow>
                     Ok ((record13 b1 b2 aid2 angle (s\<lparr>s13_mmat := m\<rparr>))
                           \<lparr>donePaths13 := insert id2 (insert id1 (donePaths13 s))\<rparr>))
      | _ \<Rightarrow> Err InvariantViolation s)"

text \<open>The pairs of bonds at an atom, as the two nested \<^verbatim>\<open>while\<close> loops meet them.\<close>

definition bondPairs :: "nat list \<Rightarrow> (nat \<times> nat) list" where
  "bondPairs bs = concat (map (\<lambda>k1. map (\<lambda>k2. (bs ! k1, bs ! k2)) [0..<k1]) [0..<length bs])"

definition otherEnd :: "ROMol \<Rightarrow> nat \<Rightarrow> nat \<Rightarrow> nat" where
  "otherEnd mol bid aid =
     (if beginAtomIdx (bonds mol ! bid) = aid then endAtomIdx (bonds mol ! bid)
      else beginAtomIdx (bonds mol ! bid))"

text \<open>An atom that was a ring centre before: the angles still missing at it.\<close>

definition set13VisitedStep ::
  "ROMol \<Rightarrow> Externals \<Rightarrow> nat \<Rightarrow> nat \<times> nat \<Rightarrow> Set13State \<Rightarrow> Set13State result" where
  "set13VisitedStep mol ext aid2 p s =
     (let b1 = fst p; b2 = snd p;
          aid1 = otherEnd mol b1 aid2; aid3 = otherEnd mol b2 aid2;
          atom = atoms mol ! aid2;
          ahyb = hybridization atom;
          deg = getDegree mol aid2;
          n13 = u32 (deg * (deg - 1)) div 2
      in if symmGet (bondAngles (s13_accum s)) b1 b2 < 0 then
           let angle =
                 (if ahyb = SP2 then
                    (2 * pi - angleTaken s aid2)
                      / real (nat ((int n13 - int (visited s aid2)) mod 2 ^ 32))
                  else if ahyb = SP3 then
                    (if isAtomInRingOfSize mol aid2 3 then 116 * pi / 180
                     else if isAtomInRingOfSize mol aid2 4 then 112 * pi / 180
                     else 1095 / 10 * pi / 180)
                  else if nonTetrahedralStereo atom then
                    getIdealAngleBetweenLigands ext aid2 aid1 aid3 * pi / 180
                  else if deg = 5 then 105 * pi / 180
                  else if deg = 6 then 135 * pi / 180
                  else 120 * pi / 180)
           in if ahyb \<noteq> SP2 \<and> ahyb \<noteq> SP3 \<and> nonTetrahedralStereo atom
                 \<and> \<not> (aid1 < getNumAtoms mol \<and> aid3 < getNumAtoms mol)
              then Err InvariantViolation s
              else
                case set13BoundsHelper mol ext aid1 aid2 aid3 angle (s13_accum s) (s13_mmat s) of
                  Err e m \<Rightarrow> Err e (s\<lparr>s13_mmat := m\<rparr>)
                | Ok m \<Rightarrow> Ok (record13 b1 b2 aid2 angle (s\<lparr>s13_mmat := m\<rparr>))
         else Ok s)"

text \<open>An atom that is no ring centre: angles from the hybridization.\<close>

definition set13PlainStep ::
  "ROMol \<Rightarrow> Externals \<Rightarrow> nat \<Rightarrow> nat \<times> nat \<Rightarrow> Set13State \<Rightarrow> Set13State result" where
  "set13PlainStep mol ext aid2 p s =
     (let b1 = fst p; b2 = snd p;
          aid1 = otherEnd mol b1 aid2; aid3 = otherEnd mol b2 aid2;
          atom = atoms mol ! aid2;
          ahyb = hybridization atom
      in if nonTetrahedralStereo atom \<and> \<not> (aid1 < getNumAtoms mol \<and> aid3 < getNumAtoms mol)
         then Err InvariantViolation s
         else
           let angle =
                 (if nonTetrahedralStereo atom then
                    getIdealAngleBetweenLigands ext aid2 aid1 aid3 * pi / 180
                  else if ahyb = SP then pi
                  else if ahyb = SP2 then 2 * pi / 3
                  else if ahyb = SP3 then 1095 / 10 * pi / 180
                  else if ahyb = SP3D then 105 * pi / 180
                  else if ahyb = SP3D2 then 135 * pi / 180
                  else 120 * pi / 180);
               written =
                 (if getDegree mol aid2 \<le> 4 \<or> (nonTetrahedralStereo atom \<and> chiralPermutation atom)
                  then set13BoundsHelper mol ext aid1 aid2 aid3 angle (s13_accum s) (s13_mmat s)
                  else
                    let dmax = bondLengths (s13_accum s) ! b1 + bondLengths (s13_accum s) ! b2
                    in checkAndSetBounds aid1 aid3 1 (dmax * 12 / 10) (s13_mmat s))
           in case written of
                Err e m \<Rightarrow> Err e (s\<lparr>s13_mmat := m\<rparr>)
              | Ok m \<Rightarrow> Ok (record13 b1 b2 aid2 angle (s\<lparr>s13_mmat := m\<rparr>)))"

definition set13AtomStep :: "ROMol \<Rightarrow> Externals \<Rightarrow> nat \<Rightarrow> Set13State \<Rightarrow> Set13State result" where
  "set13AtomStep mol ext aid2 s =
     (case getAtomWithIdx mol aid2 of
        None \<Rightarrow> Err InvariantViolation s
      | Some atom \<Rightarrow>
          let deg = getDegree mol aid2;
              n13 = u32 (deg * (deg - 1)) div 2
          in if n13 = visited s aid2 then Ok s
             else if visited s aid2 \<ge> 1 then
               for_each (set13VisitedStep mol ext aid2) (bondPairs (atomBonds mol aid2)) s
             else
               for_each (set13PlainStep mol ext aid2) (bondPairs (atomBonds mol aid2)) s)"

text \<open>
  The rings are handled in order of size. The source sorts them with \<^verbatim>\<open>std::sort\<close>, which
  fixes no order among rings of equal size; the model keeps their given order.
\<close>

definition set13Bounds :: "ROMol \<Rightarrow> Externals \<Rightarrow> BState \<Rightarrow> BState result" where
  "set13Bounds mol ext st =
     (let mmat = fst st; accumData = snd st; npt = numRows mmat in
      if npt \<noteq> getNumAtoms mol then Err InvariantViolation st
      else
        let s0 = \<lparr>s13_mmat = mmat, s13_accum = accumData, visited = (\<lambda>a. 0),
                  angleTaken = (\<lambda>a. 0), donePaths13 = {}\<rparr>;
            rings = sort_key length (atomRings mol);
            r1 = for_each (\<lambda>ringi. for_each (set13RingStep mol ext (length ringi)) (ringTriples ringi))
                   rings s0;
            r2 = bind_result r1 (for_each (set13AtomStep mol ext) [0..<npt])
        in mapResult (\<lambda>s. (s13_mmat s, s13_accum s)) r2)"

subsection \<open>Pass 3: the 1-4 routines\<close>

text \<open>
  Every routine starts by reading the two middle atoms from the adjacency table and the
  two end atoms from the outer bonds; \<open>path14Atoms\<close> gives \<open>(aid1, aid2, aid3, aid4)\<close> or
  nothing when one of these lookups throws (an adjacency entry still at \<open>-1\<close>).
\<close>

definition adjAtom :: "ROMol \<Rightarrow> ComputedData \<Rightarrow> nat \<Rightarrow> nat \<Rightarrow> nat option" where
  "adjAtom mol accumData b1 b2 =
     (let v = symmGet (bondAdj accumData) b1 b2 in
      if 0 \<le> v \<and> nat v < getNumAtoms mol then Some (nat v) else None)"

definition path14Atoms ::
  "ROMol \<Rightarrow> ComputedData \<Rightarrow> nat \<Rightarrow> nat \<Rightarrow> nat \<Rightarrow> (nat \<times> nat \<times> nat \<times> nat) option" where
  "path14Atoms mol accumData b1 b2 b3 =
     (case adjAtom mol accumData b1 b2 of
        None \<Rightarrow> None
      | Some aid2 \<Rightarrow>
          (case adjAtom mol accumData b2 b3 of
             None \<Rightarrow> None
           | Some aid3 \<Rightarrow>
               (case getOtherAtomIdx (bonds mol ! b1) aid2 of
                  None \<Rightarrow> None
                | Some aid1 \<Rightarrow>
                    (case getOtherAtomIdx (bonds mol ! b3) aid3 of
                       None \<Rightarrow> None
                     | Some aid4 \<Rightarrow> Some (aid1, aid2, aid3, aid4)))))"

text \<open>
  The key of a bond triple in \<open>cisPaths\<close> and \<open>transPaths\<close>:
  \<^verbatim>\<open>static_cast<unsigned long>(bid1) * nb * nb + bid2 * nb + bid3\<close>, where the middle
  product is taken in \<^verbatim>\<open>unsigned int\<close>.
\<close>

definition pathId :: "nat \<Rightarrow> nat \<Rightarrow> nat \<Rightarrow> nat \<Rightarrow> nat" where
  "pathId nb b1 b2 b3 = u64 (u64 (b1 * nb * nb) + u32 (b2 * nb) + b3)"

definition addCisPath :: "nat \<Rightarrow> nat \<Rightarrow> nat \<Rightarrow> nat \<Rightarrow> ComputedData \<Rightarrow> ComputedData" where
  "addCisPath nb b1 b2 b3 accumData =
     accumData\<lparr>cisPaths := insert (pathId nb b3 b2 b1) (insert (pathId nb b1 b2 b3) (cisPaths accumData))\<rparr>"

definition addTransPath :: "nat \<Rightarrow> nat \<Rightarrow> nat \<Rightarrow> nat \<Rightarrow> ComputedData \<Rightarrow> ComputedData" where
  "addTransPath nb b1 b2 b3 accumData =
     accumData\<lparr>transPaths := insert (pathId nb b3 b2 b1) (insert (pathId nb b1 b2 b3) (transPaths accumData))\<rparr>"

text \<open>The common end of the routines: write the pair, then record the path.\<close>

definition write14 ::
  "nat \<Rightarrow> nat \<Rightarrow> real \<Rightarrow> real \<Rightarrow> Path14Configuration \<Rightarrow> BoundsMatrix \<Rightarrow> ComputedData
     \<Rightarrow> BState result" where
  "write14 aid1 aid4 dl du path14 mmat accumData =
     (case checkAndSetBounds aid1 aid4 dl du mmat of
        Err e m \<Rightarrow> Err e (m, accumData)
      | Ok m \<Rightarrow> Ok (m, accumData\<lparr>paths14 := paths14 accumData @ [path14]\<rparr>))"

definition swapIfInverted :: "real \<times> real \<Rightarrow> real \<times> real" where
  "swapIfInverted r = (if snd r < fst r then (snd r, fst r) else r)"

definition widenIfClose :: "real \<times> real \<Rightarrow> real \<times> real" where
  "widenIfClose r =
     (if \<bar>snd r - fst r\<bar> < DIST12_DELTA then (fst r - GEN_DIST_TOL, snd r + GEN_DIST_TOL) else r)"

text \<open>The 1-4 contact check on the topological distance of the end atoms.\<close>

definition tooClose14 :: "(nat \<Rightarrow> real) \<Rightarrow> BoundsMatrix \<Rightarrow> nat \<Rightarrow> nat \<Rightarrow> bool" where
  "tooClose14 dmat mmat aid1 aid4 =
     (dmat (u32 (max aid1 aid4 * numRows mmat + min aid1 aid4)) < 29 / 10)"

definition fusedContact :: "ROMol \<Rightarrow> nat \<Rightarrow> nat \<Rightarrow> nat \<Rightarrow> nat \<Rightarrow> bool" where
  "fusedContact mol aid1 aid2 aid3 aid4 =
     (getBondBetweenAtoms mol aid1 aid3 \<noteq> None \<or> getBondBetweenAtoms mol aid4 aid2 \<noteq> None)"

text \<open>
  In \<^verbatim>\<open>_setInRing14Bounds\<close>, when the middle bond lies in several rings: the first ring
  holding \<open>b1\<close> decides.
\<close>

definition sharedRingCis :: "ROMol \<Rightarrow> nat \<Rightarrow> nat \<Rightarrow> nat \<Rightarrow> bool" where
  "sharedRingCis mol b1 b2 b3 =
     (if numBondRings mol b2 > 1 then
        (if numBondRings mol b1 = 1 \<and> numBondRings mol b3 = 1 then
           (case List.find (\<lambda>br. b1 \<in> set br) (bondRings mol) of
              None \<Rightarrow> False
            | Some br \<Rightarrow> b3 \<in> set br)
         else False)
      else True)"

definition setInRing14Bounds ::
  "ROMol \<Rightarrow> Externals \<Rightarrow> nat \<Rightarrow> nat \<Rightarrow> nat \<Rightarrow> (nat \<Rightarrow> real) \<Rightarrow> nat \<Rightarrow> BState \<Rightarrow> BState result" where
  "setInRing14Bounds mol ext b1 b2 b3 dmat ringSize st =
     (let mmat = fst st; accumData = snd st in
      case path14Atoms mol accumData b1 b2 b3 of
        None \<Rightarrow> Err InvariantViolation st
      | Some (aid1, aid2, aid3, aid4) \<Rightarrow>
          if tooClose14 dmat mmat aid1 aid4 then Ok st
          else
            let bl1 = bondLengths accumData ! b1;
                bl2 = bondLengths accumData ! b2;
                bl3 = bondLengths accumData ! b3;
                ba12 = symmGet (bondAngles accumData) b1 b2;
                ba23 = symmGet (bondAngles accumData) b2 b3
            in if \<not> (ba12 > 0) then Err InvariantViolation st
               else if \<not> (ba23 > 0) then Err InvariantViolation st
               else
                 let nb = getNumBonds mol;
                     ahyb2 = hybridization (atoms mol ! aid2);
                     ahyb3 = hybridization (atoms mol ! aid3);
                     stype = getAtomStereo (bonds mol ! b2) aid1 aid4;
                     smallPlanar = (ringSize \<le> 8 \<and> ahyb2 = SP2 \<and> ahyb3 = SP2
                                    \<and> stype \<noteq> STEREOE \<and> stype \<noteq> STEREOTRANS);
                     preferCis = (if smallPlanar then sharedRingCis mol b1 b2 b3
                                  else stype = STEREOZ \<or> stype = STEREOCIS);
                     preferTrans = (\<not> smallPlanar \<and> \<not> (stype = STEREOZ \<or> stype = STEREOCIS)
                                    \<and> (stype = STEREOE \<or> stype = STEREOTRANS));
                     cis = compute14DistCis ext bl1 bl2 bl3 ba12 ba23;
                     trans = compute14DistTrans ext bl1 bl2 bl3 ba12 ba23
                 in if preferCis then
                      write14 aid1 aid4 (cis - GEN_DIST_TOL) (cis - GEN_DIST_TOL + 2 * GEN_DIST_TOL)
                        \<lparr>bid1 = b1, bid2 = b2, bid3 = b3, ptype = CIS\<rparr>
                        mmat (addCisPath nb b1 b2 b3 accumData)
                    else if preferTrans then
                      write14 aid1 aid4 (trans - GEN_DIST_TOL) (trans - GEN_DIST_TOL + 2 * GEN_DIST_TOL)
                        \<lparr>bid1 = b1, bid2 = b2, bid3 = b3, ptype = TRANS\<rparr>
                        mmat (addTransPath nb b1 b2 b3 accumData)
                    else
                      let r = widenIfClose (swapIfInverted (cis, trans))
                      in write14 aid1 aid4 (fst r) (snd r)
                           \<lparr>bid1 = b1, bid2 = b2, bid3 = b3, ptype = OTHER\<rparr> mmat accumData)"

definition setTwoInSameRing14Bounds ::
  "ROMol \<Rightarrow> Externals \<Rightarrow> nat \<Rightarrow> nat \<Rightarrow> nat \<Rightarrow> (nat \<Rightarrow> real) \<Rightarrow> BState \<Rightarrow> BState result" where
  "setTwoInSameRing14Bounds mol ext b1 b2 b3 dmat st =
     (let mmat = fst st; accumData = snd st in
      case path14Atoms mol accumData b1 b2 b3 of
        None \<Rightarrow> Err InvariantViolation st
      | Some (aid1, aid2, aid3, aid4) \<Rightarrow>
          if tooClose14 dmat mmat aid1 aid4 then Ok st
          else if fusedContact mol aid1 aid2 aid3 aid4 then Ok st
          else
            let bl1 = bondLengths accumData ! b1;
                bl2 = bondLengths accumData ! b2;
                bl3 = bondLengths accumData ! b3;
                ba12 = symmGet (bondAngles accumData) b1 b2;
                ba23 = symmGet (bondAngles accumData) b2 b3
            in if \<not> (ba12 > 0) then Err InvariantViolation st
               else if \<not> (ba23 > 0) then Err InvariantViolation st
               else
                 let nb = getNumBonds mol;
                     ahyb2 = hybridization (atoms mol ! aid2);
                     ahyb3 = hybridization (atoms mol ! aid3);
                     cis = compute14DistCis ext bl1 bl2 bl3 ba12 ba23;
                     trans = compute14DistTrans ext bl1 bl2 bl3 ba12 ba23
                 in if ahyb2 = SP2 \<and> ahyb3 = SP2 then
                      write14 aid1 aid4 (trans - GEN_DIST_TOL) (trans + GEN_DIST_TOL)
                        \<lparr>bid1 = b1, bid2 = b2, bid3 = b3, ptype = TRANS\<rparr>
                        mmat (addTransPath nb b1 b2 b3 accumData)
                    else
                      let r = widenIfClose (swapIfInverted (cis, trans))
                      in write14 aid1 aid4 (fst r) (snd r)
                           \<lparr>bid1 = b1, bid2 = b2, bid3 = b3, ptype = OTHER\<rparr> mmat accumData)"

definition setTwoInDiffRing14Bounds ::
  "ROMol \<Rightarrow> Externals \<Rightarrow> nat \<Rightarrow> nat \<Rightarrow> nat \<Rightarrow> (nat \<Rightarrow> real) \<Rightarrow> BState \<Rightarrow> BState result" where
  "setTwoInDiffRing14Bounds mol ext b1 b2 b3 dmat st = setInRing14Bounds mol ext b1 b2 b3 dmat 0 st"

definition setShareRingBond14Bounds ::
  "ROMol \<Rightarrow> Externals \<Rightarrow> nat \<Rightarrow> nat \<Rightarrow> nat \<Rightarrow> (nat \<Rightarrow> real) \<Rightarrow> BState \<Rightarrow> BState result" where
  "setShareRingBond14Bounds mol ext b1 b2 b3 dmat st = setInRing14Bounds mol ext b1 b2 b3 dmat 0 st"

text \<open>The amide and ester patterns. Atoms and bonds are passed by index.\<close>

definition checkAmideEster14 :: "ROMol \<Rightarrow> nat \<Rightarrow> nat \<Rightarrow> nat \<Rightarrow> nat \<Rightarrow> nat \<Rightarrow> nat \<Rightarrow> bool" where
  "checkAmideEster14 mol bnd1 bnd3 atm1 atm2 atm3 atm4 =
     (let a2Num = atomicNum (atoms mol ! atm2);
          a3Num = atomicNum (atoms mol ! atm3);
          a4Num = atomicNum (atoms mol ! atm4)
      in a3Num = 6 \<and> bondType (bonds mol ! bnd3) = DOUBLE \<and> (a4Num = 8 \<or> a4Num = 7)
         \<and> bondType (bonds mol ! bnd1) = SINGLE
         \<and> (a2Num = 8 \<or> (a2Num = 7 \<and> totalNumHs (atoms mol ! atm2) = 1)))"

definition bondTypeBetween :: "ROMol \<Rightarrow> nat \<Rightarrow> nat \<Rightarrow> BondType option" where
  "bondTypeBetween mol a b = map_option (\<lambda>bid. bondType (bonds mol ! bid)) (getBondBetweenAtoms mol a b)"

definition checkMacrocycleAllInSameRingAmideEster14 ::
  "ROMol \<Rightarrow> nat \<Rightarrow> nat \<Rightarrow> nat \<Rightarrow> nat \<Rightarrow> bool" where
  "checkMacrocycleAllInSameRingAmideEster14 mol atm1 atm2 atm3 atm4 =
     (let a2Num = atomicNum (atoms mol ! atm2);
          a3Num = atomicNum (atoms mol ! atm3)
      in if a3Num \<noteq> 6 then False
         else if (a2Num = 7 \<or> a2Num = 8) \<and> getDegree mol atm2 = 3 \<and> getDegree mol atm3 = 3 then
           (case List.find (\<lambda>nbr. nbr \<noteq> atm1 \<and> nbr \<noteq> atm3) (atomNeighbors mol atm2) of
              None \<Rightarrow> True
            | Some nbr \<Rightarrow>
                \<not> ((atomicNum (atoms mol ! nbr) \<noteq> 6 \<and> atomicNum (atoms mol ! nbr) \<noteq> 1)
                   \<or> bondTypeBetween mol atm2 nbr \<noteq> Some SINGLE))
           \<and> (case List.find (\<lambda>nbr. nbr \<noteq> atm2 \<and> nbr \<noteq> atm4) (atomNeighbors mol atm3) of
                None \<Rightarrow> True
              | Some nbr \<Rightarrow>
                  \<not> (atomicNum (atoms mol ! nbr) \<noteq> 8 \<or> bondTypeBetween mol atm3 nbr \<noteq> Some DOUBLE))
         else False)"

definition isCarbonyl :: "ROMol \<Rightarrow> nat \<Rightarrow> bool" where
  "isCarbonyl mol aid =
     (atomicNum (atoms mol ! aid) = 6 \<and> getDegree mol aid > 2
      \<and> list_ex (\<lambda>nbr. (atomicNum (atoms mol ! nbr) = 8 \<or> atomicNum (atoms mol ! nbr) = 7)
                       \<and> bondTypeBetween mol aid nbr = Some DOUBLE)
          (atomNeighbors mol aid))"

definition checkAmideEster15 :: "ROMol \<Rightarrow> nat \<Rightarrow> nat \<Rightarrow> nat \<Rightarrow> nat \<Rightarrow> bool" where
  "checkAmideEster15 mol bnd1 bnd3 atm2 atm3 =
     (let a2Num = atomicNum (atoms mol ! atm2)
      in (a2Num = 8 \<or> (a2Num = 7 \<and> totalNumHs (atoms mol ! atm2) = 1))
         \<and> bondType (bonds mol ! bnd1) = SINGLE
         \<and> atomicNum (atoms mol ! atm3) = 6
         \<and> bondType (bonds mol ! bnd3) = SINGLE
         \<and> isCarbonyl mol atm3)"

definition checkMacrocycleTwoInSameRingAmideEster14 ::
  "ROMol \<Rightarrow> nat \<Rightarrow> nat \<Rightarrow> nat \<Rightarrow> nat \<Rightarrow> nat \<Rightarrow> nat \<Rightarrow> bool" where
  "checkMacrocycleTwoInSameRingAmideEster14 mol bnd1 bnd3 atm1 atm2 atm3 atm4 =
     (let a1Num = atomicNum (atoms mol ! atm1);
          a2Num = atomicNum (atoms mol ! atm2);
          a3Num = atomicNum (atoms mol ! atm3);
          a4Num = atomicNum (atoms mol ! atm4)
      in a1Num \<noteq> 1 \<and> a3Num = 6 \<and> bondType (bonds mol ! bnd3) = DOUBLE
         \<and> (a4Num = 8 \<or> a4Num = 7) \<and> bondType (bonds mol ! bnd1) = SINGLE
         \<and> (a2Num = 8 \<or> a2Num = 7))"

text \<open>The hydrogen of a secondary amide nitrogen: atom \<open>h\<close> on nitrogen \<open>n\<close>.\<close>

definition secondaryAmideH :: "ROMol \<Rightarrow> nat \<Rightarrow> nat \<Rightarrow> bool" where
  "secondaryAmideH mol h n =
     (atomicNum (atoms mol ! h) = 1 \<and> atomicNum (atoms mol ! n) = 7
      \<and> getDegree mol n = 3 \<and> totalNumHs (atoms mol ! n) = 1)"

text \<open>
  The \<^verbatim>\<open>switch\<close> of \<^verbatim>\<open>_setChain14Bounds\<close> on the type of the middle bond: the bounds,
  the tag of the path and the accumulated data with the path added to \<open>cisPaths\<close> or
  \<open>transPaths\<close>.
\<close>

definition chain14Case ::
  "ROMol \<Rightarrow> Externals \<Rightarrow> bool \<Rightarrow> nat \<Rightarrow> nat \<Rightarrow> nat \<Rightarrow> nat \<Rightarrow> nat \<Rightarrow> nat \<Rightarrow> nat \<Rightarrow> ComputedData
     \<Rightarrow> real \<times> real \<times> Path14Type \<times> ComputedData" where
  "chain14Case mol ext forceTransAmides b1 b2 b3 aid1 aid2 aid3 aid4 accumData =
     (let bl1 = bondLengths accumData ! b1;
          bl2 = bondLengths accumData ! b2;
          bl3 = bondLengths accumData ! b3;
          ba12 = symmGet (bondAngles accumData) b1 b2;
          ba23 = symmGet (bondAngles accumData) b2 b3;
          nb = getNumBonds mol;
          cis = compute14DistCis ext bl1 bl2 bl3 ba12 ba23;
          trans = compute14DistTrans ext bl1 bl2 bl3 ba12 ba23
      in case bondType (bonds mol ! b2) of
           DOUBLE \<Rightarrow>
             if bondType (bonds mol ! b1) = DOUBLE \<or> bondType (bonds mol ! b3) = DOUBLE then
               (cis - GEN_DIST_TOL, cis - GEN_DIST_TOL + 2 * GEN_DIST_TOL, CIS,
                addCisPath nb b1 b2 b3 accumData)
             else if stereoRank (stereo (bonds mol ! b2)) > stereoRank STEREOANY then
               (let stype = getAtomStereo (bonds mol ! b2) aid1 aid4 in
                if stype = STEREOZ \<or> stype = STEREOCIS then
                  (cis - GEN_DIST_TOL, cis - GEN_DIST_TOL + 2 * GEN_DIST_TOL, CIS,
                   addCisPath nb b1 b2 b3 accumData)
                else
                  (trans - GEN_DIST_TOL, trans + GEN_DIST_TOL, TRANS,
                   addTransPath nb b1 b2 b3 accumData))
             else
               (let r = widenIfClose (cis, trans) in (fst r, snd r, OTHER, accumData))
         | SINGLE \<Rightarrow>
             if atomicNum (atoms mol ! aid2) = 16 \<and> atomicNum (atoms mol ! aid3) = 16 then
               (let d = compute14Dist3D ext bl1 bl2 bl3 ba12 ba23 (pi / 2) in
                (d - GEN_DIST_TOL, d - GEN_DIST_TOL + 2 * GEN_DIST_TOL, OTHER, accumData))
             else if checkAmideEster14 mol b1 b3 aid1 aid2 aid3 aid4
                     \<or> checkAmideEster14 mol b3 b1 aid4 aid3 aid2 aid1 then
               (if forceTransAmides then
                  (if secondaryAmideH mol aid1 aid2 \<or> secondaryAmideH mol aid4 aid3 then
                     (trans - GEN_DIST_TOL, trans + GEN_DIST_TOL, TRANS,
                      addTransPath nb b1 b2 b3 accumData)
                   else
                     (cis - GEN_DIST_TOL, cis + GEN_DIST_TOL, CIS,
                      addCisPath nb b1 b2 b3 accumData))
                else (cis, trans, OTHER, accumData))
             else if checkAmideEster15 mol b1 b3 aid2 aid3 \<or> checkAmideEster15 mol b3 b1 aid3 aid2 then
               (if forceTransAmides then
                  (if secondaryAmideH mol aid1 aid2 \<or> secondaryAmideH mol aid4 aid3 then
                     (cis - GEN_DIST_TOL, cis + GEN_DIST_TOL, CIS,
                      addCisPath nb b1 b2 b3 accumData)
                   else
                     (trans - GEN_DIST_TOL, trans + GEN_DIST_TOL, TRANS,
                      addTransPath nb b1 b2 b3 accumData))
                else (cis, trans, OTHER, accumData))
             else (cis, trans, OTHER, accumData)
         | _ \<Rightarrow> (cis, trans, OTHER, accumData))"

text \<open>
  \<^verbatim>\<open>_setChain14Bounds\<close>. Its \<^verbatim>\<open>double *\<close> parameter has no name: the distance matrix is
  not read. The flag \<^verbatim>\<open>setTheBound\<close> stays \<^verbatim>\<open>true\<close> on every path through the function.
\<close>

definition setChain14Bounds ::
  "ROMol \<Rightarrow> Externals \<Rightarrow> nat \<Rightarrow> nat \<Rightarrow> nat \<Rightarrow> (nat \<Rightarrow> real) \<Rightarrow> bool \<Rightarrow> BState \<Rightarrow> BState result" where
  "setChain14Bounds mol ext b1 b2 b3 dmat forceTransAmides st =
     (let mmat = fst st; accumData = snd st in
      case path14Atoms mol accumData b1 b2 b3 of
        None \<Rightarrow> Err InvariantViolation st
      | Some (aid1, aid2, aid3, aid4) \<Rightarrow>
          if \<not> (aid1 < getNumAtoms mol \<and> aid4 < getNumAtoms mol) then Err InvariantViolation st
          else if \<not> (symmGet (bondAngles accumData) b1 b2 > 0) then Err InvariantViolation st
          else if \<not> (symmGet (bondAngles accumData) b2 b3 > 0) then Err InvariantViolation st
          else
            (case chain14Case mol ext forceTransAmides b1 b2 b3 aid1 aid2 aid3 aid4 accumData of
               (dl, du, ty, accumData') \<Rightarrow>
                 let r = widenIfClose (dl, du)
                 in write14 aid1 aid4 (fst r) (snd r)
                      \<lparr>bid1 = b1, bid2 = b2, bid3 = b3, ptype = ty\<rparr> mmat accumData'))"

text \<open>The planar 1-4 distances of a bond triple, from the accumulated lengths and angles.\<close>

definition chainTrans :: "Externals \<Rightarrow> ComputedData \<Rightarrow> nat \<Rightarrow> nat \<Rightarrow> nat \<Rightarrow> real" where
  "chainTrans ext acc b1 b2 b3 =
     compute14DistTrans ext (bondLengths acc ! b1) (bondLengths acc ! b2) (bondLengths acc ! b3)
       (symmGet (bondAngles acc) b1 b2) (symmGet (bondAngles acc) b2 b3)"

definition chainCis :: "Externals \<Rightarrow> ComputedData \<Rightarrow> nat \<Rightarrow> nat \<Rightarrow> nat \<Rightarrow> real" where
  "chainCis ext acc b1 b2 b3 =
     compute14DistCis ext (bondLengths acc ! b1) (bondLengths acc ! b2) (bondLengths acc ! b3)
       (symmGet (bondAngles acc) b1 b2) (symmGet (bondAngles acc) b2 b3)"

definition record14Path :: "ROMol \<Rightarrow> nat \<Rightarrow> nat \<Rightarrow> nat \<Rightarrow> ComputedData \<Rightarrow> ComputedData option" where
  "record14Path mol b1 b2 b3 accumData =
     (case (adjAtom mol accumData b1 b2, adjAtom mol accumData b2 b3) of
        (Some aid2, Some aid3) \<Rightarrow>
          let nb = getNumBonds mol in
          if hybridization (atoms mol ! aid2) = SP2 \<and> hybridization (atoms mol ! aid3) = SP2 then
            Some ((addCisPath nb b1 b2 b3 accumData)
                    \<lparr>paths14 := paths14 accumData @ [\<lparr>bid1 = b1, bid2 = b2, bid3 = b3, ptype = CIS\<rparr>]\<rparr>)
          else
            Some (accumData
                    \<lparr>paths14 := paths14 accumData @ [\<lparr>bid1 = b1, bid2 = b2, bid3 = b3, ptype = OTHER\<rparr>]\<rparr>)
      | _ \<Rightarrow> None)"

definition setMacrocycleTwoInSameRing14Bounds ::
  "ROMol \<Rightarrow> Externals \<Rightarrow> nat \<Rightarrow> nat \<Rightarrow> nat \<Rightarrow> (nat \<Rightarrow> real) \<Rightarrow> BState \<Rightarrow> BState result" where
  "setMacrocycleTwoInSameRing14Bounds mol ext b1 b2 b3 dmat st =
     (let mmat = fst st; accumData = snd st in
      case path14Atoms mol accumData b1 b2 b3 of
        None \<Rightarrow> Err InvariantViolation st
      | Some (aid1, aid2, aid3, aid4) \<Rightarrow>
          if \<not> (aid1 < getNumAtoms mol \<and> aid4 < getNumAtoms mol) then Err InvariantViolation st
          else if tooClose14 dmat mmat aid1 aid4 then Ok st
          else if fusedContact mol aid1 aid2 aid3 aid4 then Ok st
          else
            let bl1 = bondLengths accumData ! b1;
                bl2 = bondLengths accumData ! b2;
                bl3 = bondLengths accumData ! b3;
                ba12 = symmGet (bondAngles accumData) b1 b2;
                ba23 = symmGet (bondAngles accumData) b2 b3
            in if \<not> (ba12 > 0) then Err InvariantViolation st
               else if \<not> (ba23 > 0) then Err InvariantViolation st
               else
                 let nb = getNumBonds mol;
                     cis = compute14DistCis ext bl1 bl2 bl3 ba12 ba23;
                     trans = compute14DistTrans ext bl1 bl2 bl3 ba12 ba23
                 in if checkMacrocycleTwoInSameRingAmideEster14 mol b1 b3 aid1 aid2 aid3 aid4
                       \<or> checkMacrocycleTwoInSameRingAmideEster14 mol b3 b1 aid4 aid3 aid2 aid1 then
                      write14 aid1 aid4 (cis - GEN_DIST_TOL) (cis + GEN_DIST_TOL)
                        \<lparr>bid1 = b1, bid2 = b2, bid3 = b3, ptype = CIS\<rparr>
                        mmat (addCisPath nb b1 b2 b3 accumData)
                    else
                      let r = widenIfClose (swapIfInverted (cis, trans))
                      in write14 aid1 aid4 (fst r) (snd r)
                           \<lparr>bid1 = b1, bid2 = b2, bid3 = b3, ptype = OTHER\<rparr> mmat accumData)"

text \<open>
  The \<^verbatim>\<open>switch\<close> of \<^verbatim>\<open>_setMacrocycleAllInSameRing14Bounds\<close>, compiled without
  \<^verbatim>\<open>FORCE_TRANS_AMIDES\<close> (the macro is defined nowhere in the file). \<open>None\<close> is the one
  path that sets \<^verbatim>\<open>setTheBound\<close> to \<^verbatim>\<open>false\<close>.
\<close>

definition macrocycle14Case ::
  "ROMol \<Rightarrow> Externals \<Rightarrow> nat \<Rightarrow> nat \<Rightarrow> nat \<Rightarrow> nat \<Rightarrow> nat \<Rightarrow> nat \<Rightarrow> nat \<Rightarrow> ComputedData
     \<Rightarrow> (real \<times> real \<times> Path14Type \<times> ComputedData) option" where
  "macrocycle14Case mol ext b1 b2 b3 aid1 aid2 aid3 aid4 accumData =
     (let bl1 = bondLengths accumData ! b1;
          bl2 = bondLengths accumData ! b2;
          bl3 = bondLengths accumData ! b3;
          ba12 = symmGet (bondAngles accumData) b1 b2;
          ba23 = symmGet (bondAngles accumData) b2 b3;
          nb = getNumBonds mol;
          cis = compute14DistCis ext bl1 bl2 bl3 ba12 ba23;
          trans = compute14DistTrans ext bl1 bl2 bl3 ba12 ba23
      in case bondType (bonds mol ! b2) of
           DOUBLE \<Rightarrow>
             if bondType (bonds mol ! b1) = DOUBLE \<or> bondType (bonds mol ! b3) = DOUBLE then
               Some (cis - GEN_DIST_TOL, cis - GEN_DIST_TOL + 2 * GEN_DIST_TOL, CIS,
                     addCisPath nb b1 b2 b3 accumData)
             else if stereoRank (stereo (bonds mol ! b2)) > stereoRank STEREOANY then
               (let stype = getAtomStereo (bonds mol ! b2) aid1 aid4 in
                if stype = STEREOZ \<or> stype = STEREOCIS then
                  Some (cis - GEN_DIST_TOL, cis - GEN_DIST_TOL + 2 * GEN_DIST_TOL, CIS,
                        addCisPath nb b1 b2 b3 accumData)
                else
                  Some (trans - GEN_DIST_TOL, trans + GEN_DIST_TOL, TRANS,
                        addTransPath nb b1 b2 b3 accumData))
             else
               (let r = widenIfClose (cis, trans) in Some (fst r, snd r, OTHER, accumData))
         | SINGLE \<Rightarrow>
             if atomicNum (atoms mol ! aid2) = 16 \<and> atomicNum (atoms mol ! aid3) = 16 then
               (let d = compute14Dist3D ext bl1 bl2 bl3 ba12 ba23 (pi / 2) in
                Some (d - GEN_DIST_TOL, d - GEN_DIST_TOL + 2 * GEN_DIST_TOL, OTHER, accumData))
             else if checkMacrocycleAllInSameRingAmideEster14 mol aid1 aid2 aid3 aid4
                     \<or> checkMacrocycleAllInSameRingAmideEster14 mol aid4 aid3 aid2 aid1 then
               Some (trans + 1 / 10 - GEN_DIST_TOL, trans + 1 / 10 + GEN_DIST_TOL, TRANS,
                     addTransPath nb b1 b2 b3 accumData)
             else if checkAmideEster15 mol b1 b3 aid2 aid3 \<or> checkAmideEster15 mol b3 b1 aid3 aid2 then
               (if atomicNum (atoms mol ! aid2) = 7 \<and> getDegree mol aid2 = 3
                   \<and> atomicNum (atoms mol ! aid1) = 1 \<and> totalNumHs (atoms mol ! aid2) = 1
                then None
                else Some (trans - GEN_DIST_TOL, trans + GEN_DIST_TOL, TRANS,
                           addTransPath nb b1 b2 b3 accumData))
             else Some (cis, trans, OTHER, accumData)
         | _ \<Rightarrow> Some (cis, trans, OTHER, accumData))"

definition setMacrocycleAllInSameRing14Bounds ::
  "ROMol \<Rightarrow> Externals \<Rightarrow> nat \<Rightarrow> nat \<Rightarrow> nat \<Rightarrow> (nat \<Rightarrow> real) \<Rightarrow> BState \<Rightarrow> BState result" where
  "setMacrocycleAllInSameRing14Bounds mol ext b1 b2 b3 dmat st =
     (let mmat = fst st; accumData = snd st in
      case path14Atoms mol accumData b1 b2 b3 of
        None \<Rightarrow> Err InvariantViolation st
      | Some (aid1, aid2, aid3, aid4) \<Rightarrow>
          if \<not> (aid1 < getNumAtoms mol \<and> aid4 < getNumAtoms mol) then Err InvariantViolation st
          else if \<not> (symmGet (bondAngles accumData) b1 b2 > 0) then Err InvariantViolation st
          else if \<not> (symmGet (bondAngles accumData) b2 b3 > 0) then Err InvariantViolation st
          else
            (case macrocycle14Case mol ext b1 b2 b3 aid1 aid2 aid3 aid4 accumData of
               None \<Rightarrow> Ok st
             | Some (dl, du, ty, accumData') \<Rightarrow>
                 let r = widenIfClose (dl, du)
                 in write14 aid1 aid4 (fst r) (snd r)
                      \<lparr>bid1 = b1, bid2 = b2, bid3 = b3, ptype = ty\<rparr> mmat accumData'))"

subsection \<open>Pass 3: the traversal\<close>

text \<open>
  \<^verbatim>\<open>static_cast<size_t>(std::pow(std::numeric_limits<std::uint64_t>::max(), 1. / 3))\<close>:
  the integer part of the cube root of \<open>2 ^ 64\<close>.
\<close>

definition MAX_NUM_BONDS :: nat where
  "MAX_NUM_BONDS = 2642245"

record Set14State =
  s14_state :: BState
  bidIsMacrocycle :: "nat set"
  ringBondPairs :: "nat set"
  donePaths14 :: "nat set"

definition lift14 :: "Set14State \<Rightarrow> BState result \<Rightarrow> Set14State result" where
  "lift14 s r = mapResult (\<lambda>st. s\<lparr>s14_state := st\<rparr>) r"

definition set14RingStep ::
  "ROMol \<Rightarrow> Externals \<Rightarrow> (nat \<Rightarrow> real) \<Rightarrow> bool \<Rightarrow> nat \<Rightarrow> nat \<times> nat \<times> nat \<Rightarrow> Set14State
     \<Rightarrow> Set14State result" where
  "set14RingStep mol ext distMatrix useMacrocycle14config rSize t s =
     (let b1 = fst t; b2 = fst (snd t); b3 = snd (snd t);
          nb = getNumBonds mol;
          pid1 = u64 (b1 * nb + b2);
          pid2 = u64 (b2 * nb + b1);
          id1 = u64 (b1 * nb * nb + b2 * nb + b3);
          id2 = u64 (b3 * nb * nb + b2 * nb + b1);
          s1 = s\<lparr>ringBondPairs := insert pid2 (insert pid1 (ringBondPairs s)),
                 donePaths14 := insert id2 (insert id1 (donePaths14 s))\<rparr>
      in if rSize > 5 then
           (if \<not> (b1 < nb \<and> b2 < nb \<and> b3 < nb) then Err InvariantViolation s1
            else if useMacrocycle14config \<and> rSize \<ge> minMacrocycleRingSize then
              (case setMacrocycleAllInSameRing14Bounds mol ext b1 b2 b3 distMatrix (s14_state s1) of
                 Err e st \<Rightarrow> Err e (s1\<lparr>s14_state := st\<rparr>)
               | Ok st \<Rightarrow> Ok (s1\<lparr>s14_state := st, bidIsMacrocycle := insert b2 (bidIsMacrocycle s1)\<rparr>))
            else lift14 s1 (setInRing14Bounds mol ext b1 b2 b3 distMatrix rSize (s14_state s1)))
         else
           (case record14Path mol b1 b2 b3 (snd (s14_state s1)) of
              None \<Rightarrow> Err InvariantViolation s1
            | Some accumData' \<Rightarrow> Ok (s1\<lparr>s14_state := (fst (s14_state s1), accumData')\<rparr>)))"

text \<open>The bond triples \<open>(bid1, bid2, bid3)\<close> of the second traversal, in loop order.\<close>

definition chainTriples :: "ROMol \<Rightarrow> (nat \<times> nat \<times> nat) list" where
  "chainTriples mol =
     concat (map (\<lambda>b2.
        concat (map (\<lambda>b1.
           map (\<lambda>b3. (b1, b2, b3))
             (filter (\<lambda>b3. b3 \<noteq> b2) (atomBonds mol (endAtomIdx (bonds mol ! b2)))))
          (filter (\<lambda>b1. b1 \<noteq> b2) (atomBonds mol (beginAtomIdx (bonds mol ! b2))))))
       [0..<getNumBonds mol])"

definition set14PathStep ::
  "ROMol \<Rightarrow> Externals \<Rightarrow> (nat \<Rightarrow> real) \<Rightarrow> bool \<Rightarrow> bool \<Rightarrow> nat \<times> nat \<times> nat \<Rightarrow> Set14State
     \<Rightarrow> Set14State result" where
  "set14PathStep mol ext distMatrix useMacrocycle14config forceTransAmides t s =
     (let b1 = fst t; b2 = fst (snd t); b3 = snd (snd t);
          nb = getNumBonds mol;
          id1 = u64 (b1 * nb * nb + b2 * nb + b3);
          id2 = u64 (b3 * nb * nb + b2 * nb + b1)
      in if id1 \<notin> donePaths14 s \<and> id2 \<notin> donePaths14 s then
           let pid1 = u64 (b1 * nb + b2);
               pid2 = u64 (b2 * nb + b1);
               pid3 = u64 (b2 * nb + b3);
               pid4 = u64 (b3 * nb + b2)
           in if pid1 \<in> ringBondPairs s \<or> pid2 \<in> ringBondPairs s
                 \<or> pid3 \<in> ringBondPairs s \<or> pid4 \<in> ringBondPairs s then
                (if useMacrocycle14config \<and> b2 \<in> bidIsMacrocycle s then
                   lift14 s (setMacrocycleTwoInSameRing14Bounds mol ext b1 b2 b3 distMatrix (s14_state s))
                 else
                   lift14 s (setTwoInSameRing14Bounds mol ext b1 b2 b3 distMatrix (s14_state s)))
              else if (numBondRings mol b1 > 0 \<and> numBondRings mol b2 > 0)
                      \<or> (numBondRings mol b2 > 0 \<and> numBondRings mol b3 > 0) then
                lift14 s (setTwoInDiffRing14Bounds mol ext b1 b2 b3 distMatrix (s14_state s))
              else if numBondRings mol b2 > 0 then
                lift14 s (setShareRingBond14Bounds mol ext b1 b2 b3 distMatrix (s14_state s))
              else
                lift14 s (setChain14Bounds mol ext b1 b2 b3 distMatrix forceTransAmides (s14_state s))
         else Ok s)"

definition set14Bounds ::
  "ROMol \<Rightarrow> Externals \<Rightarrow> (nat \<Rightarrow> real) \<Rightarrow> bool \<Rightarrow> bool \<Rightarrow> BState \<Rightarrow> BState result" where
  "set14Bounds mol ext distMatrix useMacrocycle14config forceTransAmides st =
     (let npt = numRows (fst st) in
      if npt \<noteq> getNumAtoms mol then Err InvariantViolation st
      else if getNumBonds mol \<ge> MAX_NUM_BONDS then Err ValueErrorException st
      else
        let s0 = \<lparr>s14_state = st, bidIsMacrocycle = {}, ringBondPairs = {}, donePaths14 = {}\<rparr>;
            r1 = for_each
                   (\<lambda>bring s. if length bring < 3 then Ok s
                               else for_each
                                      (set14RingStep mol ext distMatrix useMacrocycle14config (length bring))
                                      (ringTriples bring) s)
                   (bondRings mol) s0;
            r2 = bind_result r1
                   (for_each (set14PathStep mol ext distMatrix useMacrocycle14config forceTransAmides)
                      (chainTriples mol))
        in mapResult s14_state r2)"

subsection \<open>Pass 4: 1-5 pairs\<close>

definition clampCos :: "real \<Rightarrow> real" where
  "clampCos cval = (if cval > 1 then 1 else if cval < - 1 then - 1 else cval)"

definition compute15DistsCisCis ::
  "Externals \<Rightarrow> real \<Rightarrow> real \<Rightarrow> real \<Rightarrow> real \<Rightarrow> real \<Rightarrow> real \<Rightarrow> real \<Rightarrow> real" where
  "compute15DistsCisCis ext d1 d2 d3 d4 ang12 ang23 ang34 =
     (let dx14 = d2 - d3 * cos ang23 - d1 * cos ang12;
          dy14 = d3 * sin ang23 - d1 * sin ang12;
          d14 = sqrt (dx14 * dx14 + dy14 * dy14);
          cval = clampCos ((d3 - d2 * cos ang23 + d1 * cos (ang12 + ang23)) / d14);
          ang143 = arccos cval;
          ang145 = ang34 - ang143
      in compute13Dist ext d14 d4 ang145)"

definition compute15DistsCisTrans ::
  "Externals \<Rightarrow> real \<Rightarrow> real \<Rightarrow> real \<Rightarrow> real \<Rightarrow> real \<Rightarrow> real \<Rightarrow> real \<Rightarrow> real" where
  "compute15DistsCisTrans ext d1 d2 d3 d4 ang12 ang23 ang34 =
     (let dx14 = d2 - d3 * cos ang23 - d1 * cos ang12;
          dy14 = d3 * sin ang23 - d1 * sin ang12;
          d14 = sqrt (dx14 * dx14 + dy14 * dy14);
          cval = clampCos ((d3 - d2 * cos ang23 + d1 * cos (ang12 + ang23)) / d14);
          ang143 = arccos cval;
          ang145 = ang34 + ang143
      in compute13Dist ext d14 d4 ang145)"

definition compute15DistsTransTrans ::
  "Externals \<Rightarrow> real \<Rightarrow> real \<Rightarrow> real \<Rightarrow> real \<Rightarrow> real \<Rightarrow> real \<Rightarrow> real \<Rightarrow> real" where
  "compute15DistsTransTrans ext d1 d2 d3 d4 ang12 ang23 ang34 =
     (let dx14 = d2 - d3 * cos ang23 - d1 * cos ang12;
          dy14 = d3 * sin ang23 + d1 * sin ang12;
          d14 = sqrt (dx14 * dx14 + dy14 * dy14);
          cval = clampCos ((d3 - d2 * cos ang23 + d1 * cos (ang12 - ang23)) / d14);
          ang143 = arccos cval;
          ang145 = ang34 + ang143
      in compute13Dist ext d14 d4 ang145)"

definition compute15DistsTransCis ::
  "Externals \<Rightarrow> real \<Rightarrow> real \<Rightarrow> real \<Rightarrow> real \<Rightarrow> real \<Rightarrow> real \<Rightarrow> real \<Rightarrow> real" where
  "compute15DistsTransCis ext d1 d2 d3 d4 ang12 ang23 ang34 =
     (let dx14 = d2 - d3 * cos ang23 - d1 * cos ang12;
          dy14 = d3 * sin ang23 + d1 * sin ang12;
          d14 = sqrt (dx14 * dx14 + dy14 * dy14);
          cval = clampCos ((d3 - d2 * cos ang23 + d1 * cos (ang12 - ang23)) / d14);
          ang143 = arccos cval;
          ang145 = ang34 - ang143
      in compute13Dist ext d14 d4 ang145)"

text \<open>
  The first four atoms of a 1-5 path, read as \<^verbatim>\<open>_set15BoundsHelper\<close> reads them: the
  adjacency entries are converted to \<^verbatim>\<open>unsigned int\<close> and checked only by the
  precondition of \<^verbatim>\<open>getOtherAtomIdx\<close>.
\<close>

definition adjEnd :: "ROMol \<Rightarrow> ComputedData \<Rightarrow> nat \<Rightarrow> nat \<Rightarrow> (nat \<times> nat) option" where
  "adjEnd mol accumData bOuter bInner =
     (let v = symmGet (bondAdj accumData) bOuter bInner in
      if v < 0 \<or> \<not> bOuter < getNumBonds mol then None
      else map_option (\<lambda>a. (a, nat v)) (getOtherAtomIdx (bonds mol ! bOuter) (nat v)))"

text \<open>The bounds of one 1-5 candidate; an upper bound below zero stands for "none".\<close>

definition bounds15 ::
  "ROMol \<Rightarrow> Externals \<Rightarrow> nat \<Rightarrow> nat \<Rightarrow> nat \<Rightarrow> nat \<Rightarrow> nat \<Rightarrow> nat \<Rightarrow> nat \<Rightarrow> ComputedData
     \<Rightarrow> real \<times> real" where
  "bounds15 mol ext b1 b2 b3 i type15 aid1 aid5 accumData =
     (let nb = getNumBonds mol;
          d1 = bondLengths accumData ! b1;
          d2 = bondLengths accumData ! b2;
          d3 = bondLengths accumData ! b3;
          d4 = bondLengths accumData ! i;
          ang12 = symmGet (bondAngles accumData) b1 b2;
          ang23 = symmGet (bondAngles accumData) b2 b3;
          ang34 = symmGet (bondAngles accumData) b3 i;
          pathId = pathId nb b2 b3 i;
          isCis = (pathId \<in> cisPaths accumData);
          isTrans = (pathId \<in> transPaths accumData)
      in if type15 = 0 then
           (if isCis then
              (let d = compute15DistsCisCis ext d1 d2 d3 d4 ang12 ang23 ang34
               in (d - DIST15_TOL, d + DIST15_TOL))
            else if isTrans then
              (let d = compute15DistsCisTrans ext d1 d2 d3 d4 ang12 ang23 ang34
               in (d - DIST15_TOL, d + DIST15_TOL))
            else
              (compute15DistsCisCis ext d1 d2 d3 d4 ang12 ang23 ang34 - DIST15_TOL,
               compute15DistsCisTrans ext d1 d2 d3 d4 ang12 ang23 ang34 + DIST15_TOL))
         else if type15 = 1 then
           (if isCis then
              (let d = compute15DistsTransCis ext d1 d2 d3 d4 ang12 ang23 ang34
               in (d - DIST15_TOL, d + DIST15_TOL))
            else if isTrans then
              (let d = compute15DistsTransTrans ext d1 d2 d3 d4 ang12 ang23 ang34
               in (d - DIST15_TOL, d + DIST15_TOL))
            else
              (compute15DistsTransCis ext d1 d2 d3 d4 ang12 ang23 ang34 - DIST15_TOL,
               compute15DistsTransTrans ext d1 d2 d3 d4 ang12 ang23 ang34 + DIST15_TOL))
         else
           (if isCis then
              (compute15DistsCisCis ext d4 d3 d2 d1 ang34 ang23 ang12 - DIST15_TOL,
               compute15DistsCisTrans ext d4 d3 d2 d1 ang34 ang23 ang12 + DIST15_TOL)
            else if isTrans then
              (compute15DistsTransCis ext d4 d3 d2 d1 ang34 ang23 ang12 - DIST15_TOL,
               compute15DistsTransTrans ext d4 d3 d2 d1 ang34 ang23 ang12 + DIST15_TOL)
            else
              (VDW_SCALE_15 * (getRvdw ext (atomicNum (atoms mol ! aid1))
                               + getRvdw ext (atomicNum (atoms mol ! aid5))),
               - 1)))"

text \<open>
  The test \<^verbatim>\<open>set15Atoms[pid1] || set15Atoms[pid2]\<close>: the second bit is read only when the
  first is not set. \<open>None\<close> is a read past the end of the bit set.
\<close>

definition set15Seen :: "ComputedData \<Rightarrow> nat \<Rightarrow> nat \<Rightarrow> bool option" where
  "set15Seen accumData pid1 pid2 =
     (if \<not> pid1 < set15AtomsSize accumData then None
      else if pid1 \<in> set15Atoms accumData then Some True
      else if \<not> pid2 < set15AtomsSize accumData then None
      else Some (pid2 \<in> set15Atoms accumData))"

text \<open>
  Whether the helper goes on with the pair \<open>(aid1, aid5)\<close>: the condition
  \<^verbatim>\<open>getLowerBound(aid1, aid5) < DIST12_DELTA || set15Atoms[pid1] || set15Atoms[pid2]\<close>.
\<close>

definition set15Proceeds :: "BoundsMatrix \<Rightarrow> ComputedData \<Rightarrow> nat \<Rightarrow> nat \<Rightarrow> nat \<Rightarrow> bool option" where
  "set15Proceeds mmat accumData na aid1 aid5 =
     (if getLowerBound mmat aid1 aid5 < DIST12_DELTA then Some True
      else set15Seen accumData (u32 (aid1 * na + aid5)) (u32 (aid5 * na + aid1)))"

text \<open>The two writes \<^verbatim>\<open>set15Atoms[aid1 * na + aid5] = 1; set15Atoms[aid5 * na + aid1] = 1\<close>.\<close>

definition set15Mark :: "BoundsMatrix \<Rightarrow> ComputedData \<Rightarrow> nat \<Rightarrow> nat \<Rightarrow> BState result" where
  "set15Mark mmat accumData pid1 pid2 =
     (if \<not> pid1 < set15AtomsSize accumData then Err OutOfRange (mmat, accumData)
      else if \<not> pid2 < set15AtomsSize accumData
      then Err OutOfRange (mmat, accumData\<lparr>set15Atoms := insert pid1 (set15Atoms accumData)\<rparr>)
      else Ok (mmat, accumData\<lparr>set15Atoms := insert pid2 (insert pid1 (set15Atoms accumData))\<rparr>))"

text \<open>One round of the loop over the bonds \<open>i\<close>, with the path's end atoms \<open>aid1\<close> and \<open>aid4\<close>.\<close>

definition set15Step ::
  "ROMol \<Rightarrow> Externals \<Rightarrow> (nat \<Rightarrow> real) \<Rightarrow> nat \<Rightarrow> nat \<Rightarrow> nat \<Rightarrow> nat \<Rightarrow> nat \<Rightarrow> nat \<Rightarrow> nat \<Rightarrow> BState
     \<Rightarrow> BState result" where
  "set15Step mol ext dmat b1 b2 b3 type15 aid1 aid4 i st =
     (let mmat = fst st; accumData = snd st; na = getNumAtoms mol in
      if symmGet (bondAdj accumData) b3 i = int aid4 then
        (case getOtherAtomIdx (bonds mol ! i) aid4 of
           None \<Rightarrow> Err InvariantViolation st
         | Some aid5 \<Rightarrow>
             if dmat (u32 (max aid1 aid5 * numRows mmat + min aid1 aid5)) < 39 / 10 then Ok st
             else if aid1 \<noteq> aid5 then
               (case set15Proceeds mmat accumData na aid1 aid5 of
                  None \<Rightarrow> Err OutOfRange st
                | Some False \<Rightarrow> Ok st
                | Some True \<Rightarrow>
                    if \<not> (aid1 < na \<and> aid5 < na) \<and> type15 \<noteq> 0 \<and> type15 \<noteq> 1
                       \<and> pathId (getNumBonds mol) b2 b3 i \<notin> cisPaths accumData
                       \<and> pathId (getNumBonds mol) b2 b3 i \<notin> transPaths accumData
                    then Err InvariantViolation st
                    else
                      let r = bounds15 mol ext b1 b2 b3 i type15 aid1 aid5 accumData;
                          dl = fst r;
                          du = (if snd r < 0 then MAX_UPPER else snd r)
                      in case checkAndSetBounds aid1 aid5 dl du mmat of
                           Err e m \<Rightarrow> Err e (m, accumData)
                         | Ok m \<Rightarrow>
                             set15Mark m accumData (u32 (aid1 * na + aid5)) (u32 (aid5 * na + aid1)))
             else Ok st)
      else Ok st)"

definition set15BoundsHelper ::
  "ROMol \<Rightarrow> Externals \<Rightarrow> nat \<Rightarrow> nat \<Rightarrow> nat \<Rightarrow> nat \<Rightarrow> (nat \<Rightarrow> real) \<Rightarrow> BState \<Rightarrow> BState result" where
  "set15BoundsHelper mol ext b1 b2 b3 type15 dmat st =
     (case (adjEnd mol (snd st) b1 b2, adjEnd mol (snd st) b3 b2) of
        (Some (aid1, aid2), Some (aid4, aid3)) \<Rightarrow>
          for_each (set15Step mol ext dmat b1 b2 b3 type15 aid1 aid4) [0..<getNumBonds mol] st
      | _ \<Rightarrow> Err InvariantViolation st)"

definition set15Bounds :: "ROMol \<Rightarrow> Externals \<Rightarrow> (nat \<Rightarrow> real) \<Rightarrow> BState \<Rightarrow> BState result" where
  "set15Bounds mol ext distMatrix st =
     for_each
       (\<lambda>pt s. bind_result
                 (set15BoundsHelper mol ext (bid1 pt) (bid2 pt) (bid3 pt) (path14TypeCode (ptype pt))
                    distMatrix s)
                 (set15BoundsHelper mol ext (bid3 pt) (bid2 pt) (bid1 pt) (path14TypeCode (ptype pt))
                    distMatrix))
       (paths14 (snd st)) st"

subsection \<open>The entry points\<close>

text \<open>
  What both entry points do after their checks: \<^verbatim>\<open>ComputedData accumData(na, nb)\<close> and
  \<^verbatim>\<open>MolOps::getDistanceMat(mol)\<close>, either of which can fail for want of memory, then the
  five passes.
\<close>

definition runPasses ::
  "ROMol \<Rightarrow> Externals \<Rightarrow> BoundsMatrix \<Rightarrow> bool \<Rightarrow> bool \<Rightarrow> bool \<Rightarrow> bool \<Rightarrow> BoundsMatrix result" where
  "runPasses mol ext mmat set15bounds scaleVDW useMacrocycle14config forceTransAmides =
     (if \<not> allocates ext (getNumAtoms mol) (getNumBonds mol) then Err BadAlloc mmat
      else
        let accumData = newComputedData (getNumAtoms mol) (getNumBonds mol);
            distMatrix = getDistanceMat ext;
            r12 = set12Bounds mol ext (mmat, accumData);
            r13 = bind_result r12 (set13Bounds mol ext);
            r14 = bind_result r13 (set14Bounds mol ext distMatrix useMacrocycle14config forceTransAmides);
            r15 = (if set15bounds then bind_result r14 (set15Bounds mol ext distMatrix) else r14)
        in bind_result (mapResult fst r15) (setLowerBoundVDW mol ext scaleVDW distMatrix))"

definition setTopolBounds ::
  "ROMol \<Rightarrow> Externals \<Rightarrow> BoundsMatrix \<Rightarrow> bool \<Rightarrow> bool \<Rightarrow> bool \<Rightarrow> bool \<Rightarrow> BoundsMatrix result" where
  "setTopolBounds mol ext mmat set15bounds scaleVDW useMacrocycle14config forceTransAmides =
     (if getNumAtoms mol = 0 then Err ValueErrorException mmat
      else if getNumBonds mol \<ge> MAX_NUM_BONDS then Err ValueErrorException mmat
      else runPasses mol ext mmat set15bounds scaleVDW useMacrocycle14config forceTransAmides)"




section \<open>Example molecules\<close>

text \<open>
  Small molecules on which the functions are run. The external functions are fixed to
  simple values where their outcome is not what is examined.
\<close>

definition mkAtom :: "nat \<Rightarrow> HybridizationType \<Rightarrow> nat \<Rightarrow> Atom" where
  "mkAtom z h nh =
     \<lparr>atomicNum = z, hybridization = h, totalNumHs = nh, nonTetrahedralStereo = False,
      chiralPermutation = False\<rparr>"

definition singleBond :: "nat \<Rightarrow> nat \<Rightarrow> Bond" where
  "singleBond a b =
     \<lparr>beginAtomIdx = a, endAtomIdx = b, bondType = SINGLE, bondTypeAsDouble = 1,
      isConjugated = False, stereo = STEREONONE, stereoAtoms = []\<rparr>"

definition doubleBond :: "nat \<Rightarrow> nat \<Rightarrow> BondStereo \<Rightarrow> nat list \<Rightarrow> Bond" where
  "doubleBond a b st sts =
     \<lparr>beginAtomIdx = a, endAtomIdx = b, bondType = DOUBLE, bondTypeAsDouble = 2,
      isConjugated = False, stereo = st, stereoAtoms = sts\<rparr>"

text \<open>
  Cyclopropane \<^verbatim>\<open>C1CC1\<close>, heavy atoms only. The rest length of every bond is 1.5 and the
  1-3 distance is the law of cosines.
\<close>

definition cyclopropane :: ROMol where
  "cyclopropane =
     \<lparr>atoms = [mkAtom 6 SP3 2, mkAtom 6 SP3 2, mkAtom 6 SP3 2],
      bonds = [singleBond 0 1, singleBond 1 2, singleBond 2 0],
      ringInfoInitialized = True, atomRings = [[0, 1, 2]], bondRings = [[0, 1, 2]]\<rparr>"

definition extCyclopropane :: Externals where
  "extCyclopropane =
     \<lparr>getAtomTypes = [Some ''C_3'', Some ''C_3'', Some ''C_3''],
      calcBondRestLength = (\<lambda>order p q. 3 / 2),
      getRvdw = (\<lambda>z. 17 / 10),
      compute13Dist = (\<lambda>d1 d2 a. sqrt (d1 * d1 + d2 * d2 - 2 * d1 * d2 * cos a)),
      compute14DistCis = (\<lambda>d1 d2 d3 a b. 5 / 2),
      compute14DistTrans = (\<lambda>d1 d2 d3 a b. 7 / 2),
      compute14Dist3D = (\<lambda>d1 d2 d3 a b t. 3),
      getIdealAngleBetweenLigands = (\<lambda>c a b. 90),
      getDistanceMat = (\<lambda>k. if k = 0 \<or> k = 4 \<or> k = 8 then 0 else 1),
      allocates = (\<lambda>na nb. True)\<rparr>"

definition fresh3 :: BoundsMatrix where
  "fresh3 = initBoundsMat \<lparr>numRows = 3, elems = (\<lambda>p. 0)\<rparr> 0 1000"

definition cyclopropane12 :: "BState result" where
  "cyclopropane12 = set12Bounds cyclopropane extCyclopropane (fresh3, newComputedData 3 3)"

definition cyclopropane13 :: "BState result" where
  "cyclopropane13 = bind_result cyclopropane12 (set13Bounds cyclopropane extCyclopropane)"

text \<open>The state in which the walk round the ring starts, and the state after its first step.\<close>

definition cyclopropaneRingStart :: Set13State where
  "cyclopropaneRingStart =
     \<lparr>s13_mmat = fst (result_state cyclopropane12), s13_accum = snd (result_state cyclopropane12),
      visited = (\<lambda>a. 0), angleTaken = (\<lambda>a. 0), donePaths13 = {}\<rparr>"

definition cyclopropaneRingFirst :: Set13State where
  "cyclopropaneRingFirst =
     result_state (set13RingStep cyclopropane extCyclopropane 3 (2, 0, 1) cyclopropaneRingStart)"

text \<open>
  A double bond between atoms 2 and 3 tagged Z with reference atoms 0 and 5; atoms 1
  and 4 are the other two substituents.
\<close>

definition zBond :: Bond where
  "zBond = doubleBond 2 3 STEREOZ [0, 5]"

text \<open>Two helium atoms, not bonded, and a matrix initialised with lower bound 0.\<close>

definition twoHelium :: ROMol where
  "twoHelium =
     \<lparr>atoms = [mkAtom 2 HYB_OTHER 0, mkAtom 2 HYB_OTHER 0], bonds = [],
      ringInfoInitialized = True, atomRings = [], bondRings = []\<rparr>"

definition extHelium :: Externals where
  "extHelium =
     \<lparr>getAtomTypes = [Some ''He4+4'', Some ''He4+4''],
      calcBondRestLength = (\<lambda>order p q. 1),
      getRvdw = (\<lambda>z. 14 / 10),
      compute13Dist = (\<lambda>d1 d2 a. 2),
      compute14DistCis = (\<lambda>d1 d2 d3 a b. 5 / 2),
      compute14DistTrans = (\<lambda>d1 d2 d3 a b. 7 / 2),
      compute14Dist3D = (\<lambda>d1 d2 d3 a b t. 3),
      getIdealAngleBetweenLigands = (\<lambda>c a b. 90),
      getDistanceMat = (\<lambda>k. if k = 0 \<or> k = 3 then 0 else 100000000),
      allocates = (\<lambda>na nb. True)\<rparr>"

definition zero2 :: BoundsMatrix where
  "zero2 = initBoundsMat \<lparr>numRows = 2, elems = (\<lambda>p. 0)\<rparr> 0 1000"

text \<open>
  External functions that return fixed plausible values (rest length 1.5, van der Waals
  radius 1.7, 1-3 distance 2.5, planar 1-4 distances 2.6 for cis and 3.9 for trans), for a
  molecule of \<open>n\<close> atoms with distance matrix \<open>dm\<close>.
\<close>

definition extConst :: "nat \<Rightarrow> (nat \<Rightarrow> real) \<Rightarrow> Externals" where
  "extConst n dm =
     \<lparr>getAtomTypes = replicate n (Some ''X''),
      calcBondRestLength = (\<lambda>order p q. 3 / 2),
      getRvdw = (\<lambda>z. 17 / 10),
      compute13Dist = (\<lambda>d1 d2 a. 5 / 2),
      compute14DistCis = (\<lambda>d1 d2 d3 a b. 13 / 5),
      compute14DistTrans = (\<lambda>d1 d2 d3 a b. 39 / 10),
      compute14Dist3D = (\<lambda>d1 d2 d3 a b t. 3),
      getIdealAngleBetweenLigands = (\<lambda>c a b. 90),
      getDistanceMat = dm,
      allocates = (\<lambda>na nb. True)\<rparr>"

text \<open>A matrix with every lower bound 0 and every upper bound 1000.\<close>

definition freshMatrix :: "nat \<Rightarrow> BoundsMatrix" where
  "freshMatrix n = \<lparr>numRows = n, elems = (\<lambda>p. if fst p < snd p then 1000 else 0)\<rparr>"

text \<open>Passes 1 and 2 on a fresh matrix.\<close>

definition passes12 :: "ROMol \<Rightarrow> Externals \<Rightarrow> BState result" where
  "passes12 mol ext =
     bind_result
       (set12Bounds mol ext
          (freshMatrix (getNumAtoms mol), newComputedData (getNumAtoms mol) (getNumBonds mol)))
       (set13Bounds mol ext)"

text \<open>
  n-Butane \<^verbatim>\<open>CCCC\<close>, heavy atoms only, and a distance array whose every entry is 2.
\<close>

definition butane :: ROMol where
  "butane =
     \<lparr>atoms = [mkAtom 6 SP3 3, mkAtom 6 SP3 2, mkAtom 6 SP3 2, mkAtom 6 SP3 3],
      bonds = [singleBond 0 1, singleBond 1 2, singleBond 2 3],
      ringInfoInitialized = True, atomRings = [], bondRings = []\<rparr>"

definition allTwo :: "nat \<Rightarrow> real" where
  "allTwo k = 2"

definition butane13 :: BState where
  "butane13 = result_state (passes12 butane (extConst 4 allTwo))"

definition butaneChain :: "BState result" where
  "butaneChain = setChain14Bounds butane (extConst 4 allTwo) 0 1 2 allTwo True butane13"

text \<open>
  Acetamide \<^verbatim>\<open>O=C(N)C\<close> with all hydrogens: O0, C1, N2, C3, the amide hydrogens H4 and H5
  and the methyl hydrogens H6, H7, H8; \<open>acetamideDist\<close> is its topological distance matrix.
\<close>

definition acetamide :: ROMol where
  "acetamide =
     \<lparr>atoms = [mkAtom 8 SP2 0, mkAtom 6 SP2 0, mkAtom 7 SP2 2, mkAtom 6 SP3 3,
               mkAtom 1 HYB_OTHER 0, mkAtom 1 HYB_OTHER 0,
               mkAtom 1 HYB_OTHER 0, mkAtom 1 HYB_OTHER 0, mkAtom 1 HYB_OTHER 0],
      bonds = [doubleBond 0 1 STEREONONE [], singleBond 1 2, singleBond 1 3, singleBond 2 4,
               singleBond 2 5, singleBond 3 6, singleBond 3 7, singleBond 3 8],
      ringInfoInitialized = True, atomRings = [], bondRings = []\<rparr>"

definition acetamideDist :: "nat \<Rightarrow> real" where
  "acetamideDist k = real ([0, 1, 2, 2, 3, 3, 3, 3, 3, 1, 0, 1, 1, 2, 2, 2, 2, 2, 2, 1, 0, 2, 1, 1, 3, 3, 3, 2, 1, 2, 0, 3, 3, 1, 1, 1, 3, 2, 1, 3, 0, 2, 4, 4, 4, 3, 2, 1, 3, 2, 0, 4, 4, 4, 3, 2, 3, 1, 4, 4, 0, 2, 2, 3, 2, 3, 1, 4, 4, 2, 0, 2, 3, 2, 3, 1, 4, 4, 2, 2, 0] ! k)"

text \<open>Passes 1 and 2 on acetamide, then the Pass 3 routine for the path O0=C1-N2-H4.\<close>

definition acetamide13 :: BState where
  "acetamide13 = result_state (passes12 acetamide (extConst 9 acetamideDist))"

definition acetamideHO :: "BState result" where
  "acetamideHO =
     setChain14Bounds acetamide (extConst 9 acetamideDist) 0 1 3 acetamideDist True acetamide13"

text \<open>
  N-methylacetamide \<^verbatim>\<open>CC(=O)NC\<close>, a secondary amide, with the amide hydrogen in the
  graph: O0, C1, N2, C3, H4 and the N-methyl carbon C5.
\<close>

definition nMethylAcetamide :: ROMol where
  "nMethylAcetamide =
     \<lparr>atoms = [mkAtom 8 SP2 0, mkAtom 6 SP2 0, mkAtom 7 SP2 1, mkAtom 6 SP3 3,
               mkAtom 1 HYB_OTHER 0, mkAtom 6 SP3 3],
      bonds = [doubleBond 0 1 STEREONONE [], singleBond 1 2, singleBond 1 3, singleBond 2 4,
               singleBond 2 5],
      ringInfoInitialized = True, atomRings = [], bondRings = []\<rparr>"

definition nMethylAcetamideDist :: "nat \<Rightarrow> real" where
  "nMethylAcetamideDist k = real ([0, 1, 2, 2, 3, 3, 1, 0, 1, 1, 2, 2, 2, 1, 0, 2, 1, 1, 2, 1, 2, 0, 3, 3, 3, 2, 1, 3, 0, 2, 3, 2, 1, 3, 2, 0] ! k)"

definition nMethylAcetamide13 :: BState where
  "nMethylAcetamide13 = result_state (passes12 nMethylAcetamide (extConst 6 nMethylAcetamideDist))"

definition nMethylAcetamideHO :: "BState result" where
  "nMethylAcetamideHO =
     setChain14Bounds nMethylAcetamide (extConst 6 nMethylAcetamideDist) 0 1 3
       nMethylAcetamideDist True nMethylAcetamide13"

text \<open>n-Pentane \<^verbatim>\<open>CCCCC\<close>, heavy atoms only, after Passes 1 to 3.\<close>

definition pentane :: ROMol where
  "pentane =
     \<lparr>atoms = [mkAtom 6 SP3 3, mkAtom 6 SP3 2, mkAtom 6 SP3 2, mkAtom 6 SP3 2, mkAtom 6 SP3 3],
      bonds = [singleBond 0 1, singleBond 1 2, singleBond 2 3, singleBond 3 4],
      ringInfoInitialized = True, atomRings = [], bondRings = []\<rparr>"

definition pentaneDist :: "nat \<Rightarrow> real" where
  "pentaneDist k = real ([0, 1, 2, 3, 4, 1, 0, 1, 2, 3, 2, 1, 0, 1, 2, 3, 2, 1, 0, 1, 4, 3, 2, 1, 0] ! k)"

definition pentane14 :: BState where
  "pentane14 =
     result_state (bind_result (passes12 pentane (extConst 5 pentaneDist))
                     (set14Bounds pentane (extConst 5 pentaneDist) pentaneDist False True))"

text \<open>
  The same state with the pair (0, 4) bounded by [3, 4]: first with no bit of the pair in
  \<open>set15Atoms\<close>, then with both bits set, as a round of Pass 4 leaves them.
\<close>

definition pentaneBounded :: BState where
  "pentaneBounded = (setLowerBound (setUpperBound (fst pentane14) 0 4 4) 0 4 3, snd pentane14)"

definition pentaneSeen :: BState where
  "pentaneSeen = (fst pentaneBounded, (snd pentaneBounded)\<lparr>set15Atoms := {4, 20}\<rparr>)"

definition pentaneSeenStep :: "BState result" where
  "pentaneSeenStep =
     set15Step pentane (extConst 5 pentaneDist) pentaneDist 0 1 2 2 0 3 3 pentaneSeen"

text \<open>Two bonded dummy atoms: no force-field parameters, van der Waals radius 0.\<close>

definition twoDummy :: ROMol where
  "twoDummy =
     \<lparr>atoms = [mkAtom 0 HYB_OTHER 0, mkAtom 0 HYB_OTHER 0], bonds = [singleBond 0 1],
      ringInfoInitialized = True, atomRings = [], bondRings = []\<rparr>"

definition extDummy :: Externals where
  "extDummy =
     (extConst 2 (\<lambda>k. if k = 0 \<or> k = 3 then 0 else 1))
       \<lparr>getAtomTypes := [None, None], getRvdw := (\<lambda>z. if z = 0 then 0 else 17 / 10)\<rparr>"

definition twoDummy12 :: "BState result" where
  "twoDummy12 = set12Bounds twoDummy extDummy (freshMatrix 2, newComputedData 2 1)"

text \<open>The whole pipeline on the two dummy atoms and on the two helium atoms.\<close>

definition twoDummyTopol :: "BoundsMatrix result" where
  "twoDummyTopol = setTopolBounds twoDummy extDummy (freshMatrix 2) True True False True"

definition twoHeliumTopol :: "BoundsMatrix result" where
  "twoHeliumTopol = setTopolBounds twoHelium extHelium zero2 True True False True"

text \<open>
  \<open>n\<close> hydrogen molecules in one molecule object: atoms \<open>2k\<close> and \<open>2k + 1\<close> are joined by
  bond \<open>k\<close>. Atoms of different fragments are at the distance the library gives to
  disconnected atoms.
\<close>

definition hydrogenPairs :: "nat \<Rightarrow> ROMol" where
  "hydrogenPairs n =
     \<lparr>atoms = replicate (2 * n) (mkAtom 1 HYB_OTHER 0),
      bonds = map (\<lambda>k. singleBond (2 * k) (2 * k + 1)) [0..<n],
      ringInfoInitialized = True, atomRings = [], bondRings = []\<rparr>"

definition hydrogenPairsDist :: "nat \<Rightarrow> nat \<Rightarrow> real" where
  "hydrogenPairsDist n k =
     (let i = k div (2 * n); j = k mod (2 * n)
      in if i = j then 0 else if i div 2 = j div 2 then 1 else 100000000)"

text \<open>A two-atom matrix in its initial state, and the same matrix after two writes.\<close>

definition fresh2 :: BoundsMatrix where
  "fresh2 = initBoundsMat \<lparr>numRows = 2, elems = (\<lambda>p. 0)\<rparr> (1 / 100) 1000"

definition fresh2_once :: BoundsMatrix where
  "fresh2_once = result_state (checkAndSetBounds 1 0 2 3 fresh2)"

definition fresh2_twice :: BoundsMatrix where
  "fresh2_twice = result_state (checkAndSetBounds 1 0 1 4 fresh2_once)"


text \<open>
  Two dummy atoms, not bonded, and a matrix initialised with \<^verbatim>\<open>initBoundsMat(mmat, 0.005)\<close>:
  every lower bound 0.005, every upper bound 1000.
\<close>

definition twoDummyApart :: ROMol where
  "twoDummyApart =
     \<lparr>atoms = [mkAtom 0 HYB_OTHER 0, mkAtom 0 HYB_OTHER 0], bonds = [],
      ringInfoInitialized = True, atomRings = [], bondRings = []\<rparr>"

definition extDummyApart :: Externals where
  "extDummyApart = extDummy\<lparr>getDistanceMat := (\<lambda>k. if k = 0 \<or> k = 3 then 0 else 100000000)\<rparr>"

definition low2 :: BoundsMatrix where
  "low2 = initBoundsMat \<lparr>numRows = 2, elems = (\<lambda>p. 0)\<rparr> (5 / 1000) 1000"

definition twoDummyApartTopol :: "BoundsMatrix result" where
  "twoDummyApartTopol = setTopolBounds twoDummyApart extDummyApart low2 True True False True"

subsection \<open>Notions used in the statements and proofs\<close>




section \<open>Properties\<close>

subsection \<open>Accessors\<close>

lemma getLowerBound_setLowerBound [simp]:
  "getLowerBound (setLowerBound m i j v) i j = v"
  by (simp add: getLowerBound_def setLowerBound_def)

lemma getUpperBound_setUpperBound [simp]:
  "getUpperBound (setUpperBound m i j v) i j = v"
  by (simp add: getUpperBound_def setUpperBound_def)

lemma getUpperBound_setLowerBound [simp]:
  "i \<noteq> j \<Longrightarrow> getUpperBound (setLowerBound m i j v) i j = getUpperBound m i j"
  by (simp add: getUpperBound_def setLowerBound_def)

lemma getLowerBound_setUpperBound [simp]:
  "i \<noteq> j \<Longrightarrow> getLowerBound (setUpperBound m i j v) i j = getLowerBound m i j"
  by (simp add: getLowerBound_def setUpperBound_def)

lemma lowerTrianglePairs_2: "lowerTrianglePairs 2 = [(Suc 0, 0)]"
  by (simp add: lowerTrianglePairs_def upt_rec)

lemma fresh2_bounds:
  "getLowerBound fresh2 (Suc 0) 0 = 1 / 100" "getUpperBound fresh2 (Suc 0) 0 = 1000"
  by (simp_all add: fresh2_def initBoundsMat_def lowerTrianglePairs_2)

lemma fresh2_once_eq:
  "checkAndSetBounds (Suc 0) 0 2 3 fresh2
     = Ok (setUpperBound (setLowerBound fresh2 (Suc 0) 0 2) (Suc 0) 0 3)"
  by (simp add: checkAndSetBounds_def fresh2_bounds tol_defs Let_def)

lemma fresh2_once_bounds:
  "getLowerBound fresh2_once (Suc 0) 0 = 2" "getUpperBound fresh2_once (Suc 0) 0 = 3"
  by (simp_all add: fresh2_once_def fresh2_once_eq)

lemma fresh2_twice_eq:
  "checkAndSetBounds (Suc 0) 0 1 4 fresh2_once
     = Ok (setUpperBound (setLowerBound fresh2_once (Suc 0) 0 1) (Suc 0) 0 4)"
  by (simp add: checkAndSetBounds_def fresh2_once_bounds tol_defs Let_def)

lemma is_ok_result_state: "is_ok r \<Longrightarrow> r = Ok (result_state r)"
  by (cases r) simp_all

lemma symmGet_symmSet_same [simp]: "symmGet (symmSet m i j v) i j = v"
  by (simp add: symmGet_def symmSet_def)

lemma sqrt_9_4: "sqrt (9 / 4) = 3 / 2"
  by (rule real_sqrt_unique) (simp_all add: power2_eq_square)

text \<open>Unfolding sets for running the functions on the example molecules.\<close>

lemmas mol_defs = getNumAtoms_def getNumBonds_def getAtomWithIdx_def getBondWithIdx_def
  getOtherAtomIdx_def bondJoins_def getBondBetweenAtoms_def atomBonds_def getDegree_def
  atomNeighbors_def numAtomRings_def numBondRings_def otherEnd_def mkAtom_def singleBond_def
  doubleBond_def u32_def u64_def upt_rec

lemmas matrix_defs = initBoundsMat_def lowerTrianglePairs_def setUpperBound_def setLowerBound_def
  getUpperBound_def getLowerBound_def checkAndSetBounds_def tol_defs

lemmas pass12_defs = set12Bounds_def squishStep_def set12Step_def newComputedData_def

lemmas pass13_defs = set13Bounds_def set13RingStep_def ringTriples_def setRingAngle_def
  set13BoundsHelper_def isLargerSP2Atom_def record13_def symmSet_def symmGet_def
  set13AtomStep_def bondPairs_def set13VisitedStep_def set13PlainStep_def

lemmas pass14_defs = adjAtom_def path14Atoms_def pathId_def addCisPath_def addTransPath_def
  write14_def swapIfInverted_def widenIfClose_def tooClose14_def fusedContact_def
  checkAmideEster14_def checkAmideEster15_def isCarbonyl_def bondTypeBetween_def
  secondaryAmideH_def chain14Case_def setChain14Bounds_def set14Bounds_def MAX_NUM_BONDS_def
  chainTriples_def set14PathStep_def lift14_def set14RingStep_def record14Path_def
  setInRing14Bounds_def setTwoInSameRing14Bounds_def setTwoInDiffRing14Bounds_def
  setShareRingBond14Bounds_def sharedRingCis_def getAtomStereo_def

lemmas pass15_defs = set15Bounds_def set15BoundsHelper_def adjEnd_def set15Step_def bounds15_def
  setLowerBoundVDW_def vdwStep_def setTopolBounds_def runPasses_def

lemmas ext_defs = extConst_def freshMatrix_def passes12_def

subsection \<open>The loop index pairs\<close>

lemma lowerTrianglePairs_Suc:
  "lowerTrianglePairs (Suc n) = lowerTrianglePairs n @ map (\<lambda>j. (n, j)) [0..<n]"
  by (cases n) (simp_all add: lowerTrianglePairs_def)

lemma lowerTrianglePairs_set: "set (lowerTrianglePairs npt) = {(i, j). j < i \<and> i < npt}"
proof (induction npt)
  case 0
  then show ?case by (simp add: lowerTrianglePairs_def)
next
  case (Suc n)
  have "set (map (\<lambda>j. (n, j)) [0..<n]) = {(i, j). i = n \<and> j < n}"
    by auto
  moreover have "{(i, j). j < i \<and> i < n} \<union> {(i, j). i = n \<and> j < n}
                   = {(i, j). j < i \<and> i < Suc n}"
    by (auto simp: less_Suc_eq)
  ultimately show ?case
    using Suc by (simp only: lowerTrianglePairs_Suc set_append)
qed

lemma lowerTrianglePairs_distinct: "distinct (lowerTrianglePairs npt)"
proof (induction npt)
  case 0
  then show ?case by (simp add: lowerTrianglePairs_def)
next
  case (Suc n)
  then show ?case
    by (auto simp: lowerTrianglePairs_Suc lowerTrianglePairs_set distinct_map inj_on_def)
qed

subsection \<open>Loops and results\<close>

lemma for_each_Cons_Ok:
  "for_each body (x # xs) s = Ok s' \<Longrightarrow> \<exists>s1. body x s = Ok s1 \<and> for_each body xs s1 = Ok s'"
  by (cases "body x s") simp_all

lemma for_each_invariant:
  assumes "for_each body xs s = Ok s'" and "I s"
      and "\<And>x t t'. x \<in> set xs \<Longrightarrow> I t \<Longrightarrow> body x t = Ok t' \<Longrightarrow> I t'"
  shows "I s'"
  using assms
proof (induction xs arbitrary: s)
  case Nil
  then show ?case by simp
next
  case (Cons x xs)
  obtain s1 where s1: "body x s = Ok s1" "for_each body xs s1 = Ok s'"
    using for_each_Cons_Ok [OF Cons.prems(1)] by blast
  have "I s1" using Cons.prems(3) [of x s s1] Cons.prems(2) s1 by simp
  show ?case
  proof (rule Cons.IH [OF s1(2) \<open>I s1\<close>])
    fix z t t' assume "z \<in> set xs" "I t" "body z t = Ok t'"
    then show "I t'" using Cons.prems(3) [of z t t'] by simp
  qed
qed

lemma for_each_reaches:
  assumes "for_each body xs s = Ok s'" and "x \<in> set xs"
      and "\<And>y t t'. y \<in> set xs \<Longrightarrow> G t \<Longrightarrow> body y t = Ok t' \<Longrightarrow> G t'"
      and "\<And>t t'. body x t = Ok t' \<Longrightarrow> G t'"
  shows "G s'"
  using assms
proof (induction xs arbitrary: s)
  case Nil
  then show ?case by simp
next
  case (Cons y ys)
  obtain s1 where s1: "body y s = Ok s1" "for_each body ys s1 = Ok s'"
    using for_each_Cons_Ok [OF Cons.prems(1)] by blast
  show ?case
  proof (cases "x = y")
    case True
    then have "G s1" using Cons.prems(4) s1 by simp
    show ?thesis
    proof (rule for_each_invariant [where I = G, OF s1(2) \<open>G s1\<close>])
      fix z t t' assume "z \<in> set ys" "G t" "body z t = Ok t'"
      then show "G t'" using Cons.prems(3) [of z t t'] by simp
    qed
  next
    case False
    then have mem: "x \<in> set ys" using Cons.prems(2) by simp
    show ?thesis
    proof (rule Cons.IH [OF s1(2) mem])
      fix z t t' assume "z \<in> set ys" "G t" "body z t = Ok t'"
      then show "G t'" using Cons.prems(3) [of z t t'] by simp
    next
      fix t t' assume "body x t = Ok t'"
      then show "G t'" by (rule Cons.prems(4))
    qed
  qed
qed












lemma is_ok_bind_result: "is_ok (bind_result r f) \<Longrightarrow> is_ok r"
  by (cases r) simp_all


subsection \<open>C2: successive writes to one pair\<close>

text \<open>
  C2 as stated: across successive successful calls of \<^verbatim>\<open>_checkAndSetBounds\<close> on a pair,
  the stored upper bound never increases and the stored lower bound never decreases.
  This fails: on a fresh two-atom matrix the call with bounds 2 and 3 installs them, and
  the next call with bounds 1 and 4 succeeds, lowers the lower bound from 2 to 1 and
  raises the upper bound from 3 to 4.
\<close>

theorem checkAndSetBounds_tightens_counterexample:
  "is_ok (checkAndSetBounds 1 0 2 3 fresh2)
   \<and> is_ok (checkAndSetBounds 1 0 1 4 fresh2_once)
   \<and> getLowerBound fresh2_once 1 0 = 2 \<and> getLowerBound fresh2_twice 1 0 = 1
   \<and> getUpperBound fresh2_once 1 0 = 3 \<and> getUpperBound fresh2_twice 1 0 = 4"
  by (simp add: fresh2_once_eq fresh2_twice_eq fresh2_once_bounds fresh2_twice_def)

text \<open>
  C2 as amended: a successful call on a pair \<open>i \<noteq> j\<close> installs \<open>lb\<close> as the lower bound
  when the current one is unset (at most \<open>DIST12_DELTA\<close>) and \<open>ub\<close> as the upper bound
  when the current one is unset (at least \<open>MAX_UPPER\<close>). Once a bound is set, later calls
  only widen: the lower bound is left alone or replaced by a smaller \<open>lb\<close> that is still
  above \<open>DIST12_DELTA\<close>, the upper bound is left alone or replaced by a larger \<open>ub\<close> that is
  still below \<open>MAX_UPPER\<close>.
\<close>

theorem checkAndSetBounds_widens:
  assumes "checkAndSetBounds i j lb ub m = Ok m'" and "i \<noteq> j"
  shows "(getLowerBound m i j \<le> DIST12_DELTA \<longrightarrow> getLowerBound m' i j = lb)
       \<and> (DIST12_DELTA < getLowerBound m i j \<longrightarrow>
            getLowerBound m' i j \<le> getLowerBound m i j
          \<and> DIST12_DELTA < getLowerBound m' i j
          \<and> (getLowerBound m' i j = getLowerBound m i j \<or> getLowerBound m' i j = lb))
       \<and> (MAX_UPPER \<le> getUpperBound m i j \<longrightarrow> getUpperBound m' i j = ub)
       \<and> (getUpperBound m i j < MAX_UPPER \<longrightarrow>
            getUpperBound m i j \<le> getUpperBound m' i j
          \<and> getUpperBound m' i j < MAX_UPPER
          \<and> (getUpperBound m' i j = getUpperBound m i j \<or> getUpperBound m' i j = ub))"
  using assms
  by (auto simp: checkAndSetBounds_def Let_def split: if_splits)

theorem checkAndSetBounds_widens_witness:
  "checkAndSetBounds 1 0 1 4 fresh2_once = Ok fresh2_twice
   \<and> getLowerBound fresh2_twice 1 0 \<le> getLowerBound fresh2_once 1 0
   \<and> getUpperBound fresh2_once 1 0 \<le> getUpperBound fresh2_twice 1 0"
  using checkAndSetBounds_widens [OF fresh2_twice_eq]
  by (simp add: fresh2_twice_eq fresh2_once_bounds tol_defs fresh2_twice_def)

subsection \<open>C7: the effective stereo of the middle bond\<close>

text \<open>
  C7 as stated: when the stored stereo-atom pair of the bond does not equal the observed
  end atoms, the returned stereo is flipped; otherwise it is returned unchanged.
  This fails when both stored atoms differ from the end atoms: the bond \<open>zBond\<close> stores
  the reference atoms 0 and 5, the path runs from atom 1 to atom 4, and the stored tag Z
  is returned as it is.
\<close>

theorem getAtomStereo_both_differ_counterexample:
  "stereoAtoms zBond = [0, 5] \<and> (0 :: nat, 5 :: nat) \<noteq> (1, 4) \<and> stereo zBond = STEREOZ
   \<and> getAtomStereo zBond 1 4 = STEREOZ"
  by (simp add: zBond_def doubleBond_def getAtomStereo_def)

text \<open>
  C7 as amended: the tag is swapped (Z with E, CIS with TRANS) when the bond carries a
  tag above \<^verbatim>\<open>STEREOANY\<close>, stores at least two stereo atoms, and exactly one of the two
  stored atoms differs from the end atom on its side (the first from \<open>aid1\<close>, the second
  from \<open>aid4\<close>). When both stored atoms match or both differ, and when the bond has no
  such tag or fewer than two stereo atoms, the stored tag is returned unchanged.
\<close>

theorem getAtomStereo_flips:
  "(stereoRank STEREOANY < stereoRank (stereo bnd) \<and> 2 \<le> length (stereoAtoms bnd)
      \<and> ((stereoAtoms bnd ! 0 = aid1) \<noteq> (stereoAtoms bnd ! 1 = aid4))
      \<longrightarrow> (stereo bnd = STEREOZ \<longrightarrow> getAtomStereo bnd aid1 aid4 = STEREOE)
        \<and> (stereo bnd = STEREOE \<longrightarrow> getAtomStereo bnd aid1 aid4 = STEREOZ)
        \<and> (stereo bnd = STEREOCIS \<longrightarrow> getAtomStereo bnd aid1 aid4 = STEREOTRANS)
        \<and> (stereo bnd = STEREOTRANS \<longrightarrow> getAtomStereo bnd aid1 aid4 = STEREOCIS)
        \<and> (stereo bnd = STEREOATROPCW \<or> stereo bnd = STEREOATROPCCW
             \<longrightarrow> getAtomStereo bnd aid1 aid4 = stereo bnd))
   \<and> (((stereoAtoms bnd ! 0 = aid1) = (stereoAtoms bnd ! 1 = aid4))
      \<longrightarrow> getAtomStereo bnd aid1 aid4 = stereo bnd)
   \<and> (stereoRank (stereo bnd) \<le> stereoRank STEREOANY \<or> length (stereoAtoms bnd) < 2
      \<longrightarrow> getAtomStereo bnd aid1 aid4 = stereo bnd)"
  by (auto simp: getAtomStereo_def Let_def)

theorem getAtomStereo_flips_witness:
  "getAtomStereo zBond 0 4 = STEREOE \<and> getAtomStereo zBond 1 5 = STEREOE
   \<and> getAtomStereo zBond 0 5 = STEREOZ"
  using getAtomStereo_flips [of zBond 0 4] getAtomStereo_flips [of zBond 1 5]
    getAtomStereo_flips [of zBond 0 5]
  by (simp add: zBond_def doubleBond_def)

subsection \<open>C8: ring interior angles\<close>

























lemma cyclopropane13_angles:
  "is_ok cyclopropane13"
  "symmGet (bondAngles (snd (result_state cyclopropane13))) 2 0 = 60 * pi / 180"
  "symmGet (bondAngles (snd (result_state cyclopropane13))) 0 1 = 60 * pi / 180"
  "symmGet (bondAngles (snd (result_state cyclopropane13))) 1 2 = 60 * pi / 180"
  by (simp_all add: cyclopropane13_def cyclopropane12_def cyclopropane_def extCyclopropane_def
      fresh3_def mol_defs matrix_defs pass12_defs pass13_defs Let_def cos_60 sqrt_9_4)





subsection \<open>C10: the van der Waals pass and its flag\<close>

lemma vdwStep_elems:
  assumes "j < i"
  shows "elems (vdwStep mol ext dmat npt m (i, j)) p =
           (if p = (i, j) \<and> elems m (i, j) < DIST12_DELTA then
              (if dmat (u32 (i * npt + j)) = 4 then 7 / 10
               else if dmat (u32 (i * npt + j)) = 5 then 85 / 100 else 1)
                * (getRvdw ext (atomicNum (atoms mol ! i)) + getRvdw ext (atomicNum (atoms mol ! j)))
            else elems m p)"
  using assms
  by (simp add: vdwStep_def Let_def getLowerBound_def setLowerBound_def VDW_SCALE_15_def)

lemma vdw_foldl_elems:
  assumes "distinct ps" and "\<forall>q \<in> set ps. snd q < fst q" and "j < i"
  shows "elems (foldl (vdwStep mol ext dmat npt) m ps) (i, j) =
           (if (i, j) \<in> set ps then elems (vdwStep mol ext dmat npt m (i, j)) (i, j)
            else elems m (i, j))"
  using assms
proof (induction ps arbitrary: m)
  case Nil
  then show ?case by simp
next
  case (Cons q ps)
  obtain a b where q: "q = (a, b)" by (cases q)
  with Cons.prems have ab: "b < a" by simp
  show ?case
  proof (cases "(i, j) = q")
    case True
    with Cons show ?thesis by auto
  next
    case False
    have same: "elems (vdwStep mol ext dmat npt m q) (i, j) = elems m (i, j)"
      using False ab q by (auto simp: vdwStep_elems)
    have "elems (vdwStep mol ext dmat npt (vdwStep mol ext dmat npt m q) (i, j)) (i, j)
            = elems (vdwStep mol ext dmat npt m (i, j)) (i, j)"
      using \<open>j < i\<close> same by (simp add: vdwStep_elems)
    with Cons False same show ?thesis by auto
  qed
qed

lemma vdw_foldl_upper:
  assumes "\<forall>q \<in> set ps. snd q < fst q" and "i < j"
  shows "elems (foldl (vdwStep mol ext dmat npt) m ps) (i, j) = elems m (i, j)"
  using assms
proof (induction ps arbitrary: m)
  case Nil
  then show ?case by simp
next
  case (Cons q ps)
  obtain a b where q: "q = (a, b)" by (cases q)
  with Cons.prems have ab: "b < a" by simp
  have "(i, j) \<noteq> (a, b)" using ab \<open>i < j\<close> by auto
  then have "elems (vdwStep mol ext dmat npt m q) (i, j) = elems m (i, j)"
    using ab q by (auto simp: vdwStep_elems)
  with Cons show ?case by simp
qed

lemma setLowerBoundVDW_bounds:
  assumes "setLowerBoundVDW mol ext flag dmat m = Ok m'" and "j < i" and "i < numRows m"
  shows "getLowerBound m' i j =
           (if getLowerBound m i j < DIST12_DELTA then
              (if dmat (u32 (i * numRows m + j)) = 4 then 7 / 10
               else if dmat (u32 (i * numRows m + j)) = 5 then 85 / 100 else 1)
                * (getRvdw ext (atomicNum (atoms mol ! i)) + getRvdw ext (atomicNum (atoms mol ! j)))
            else getLowerBound m i j)"
    and "getUpperBound m' i j = getUpperBound m i j"
proof -
  let ?ps = "lowerTrianglePairs (numRows m)"
  have m': "m' = foldl (vdwStep mol ext dmat (numRows m)) m ?ps"
    using assms(1) by (simp add: setLowerBoundVDW_def Let_def split: if_splits)
  have mem: "(i, j) \<in> set ?ps" using assms by (simp add: lowerTrianglePairs_set)
  have ord: "\<forall>q \<in> set ?ps. snd q < fst q" by (auto simp: lowerTrianglePairs_set)
  have "elems m' (i, j) = elems (vdwStep mol ext dmat (numRows m) m (i, j)) (i, j)"
    unfolding m' using vdw_foldl_elems [OF lowerTrianglePairs_distinct ord \<open>j < i\<close>] mem by simp
  then show "getLowerBound m' i j =
           (if getLowerBound m i j < DIST12_DELTA then
              (if dmat (u32 (i * numRows m + j)) = 4 then 7 / 10
               else if dmat (u32 (i * numRows m + j)) = 5 then 85 / 100 else 1)
                * (getRvdw ext (atomicNum (atoms mol ! i)) + getRvdw ext (atomicNum (atoms mol ! j)))
            else getLowerBound m i j)"
    using \<open>j < i\<close> by (simp add: getLowerBound_def vdwStep_elems)
  have "elems m' (j, i) = elems m (j, i)"
    unfolding m' using vdw_foldl_upper [OF ord \<open>j < i\<close>] by simp
  then show "getUpperBound m' i j = getUpperBound m i j"
    using \<open>j < i\<close> by (simp add: getUpperBound_def)
qed



lemma zero2_facts:
  "numRows zero2 = 2" "getLowerBound zero2 (Suc 0) 0 = 0"
  by (simp_all add: zero2_def initBoundsMat_def lowerTrianglePairs_2 setLowerBound_def
      setUpperBound_def getLowerBound_def)

lemma zero2_vdw_ok: "is_ok (setLowerBoundVDW twoHelium extHelium True (getDistanceMat extHelium) zero2)"
  by (simp add: setLowerBoundVDW_def zero2_facts twoHelium_def getNumAtoms_def Let_def)



subsection \<open>C3: the writers of the matrix\<close>

lemma viaCheck_append: "viaCheck b c \<Longrightarrow> viaCheck a b \<Longrightarrow> viaCheck a c"
  by (induction rule: viaCheck.induct) (auto intro: viaCheck.intros)

lemma viaCheck_trans: "viaCheck a b \<Longrightarrow> viaCheck b c \<Longrightarrow> viaCheck a c"
  by (rule viaCheck_append)

lemma checkAndSetBounds_Err: "checkAndSetBounds i j lb ub m = Err e m' \<Longrightarrow> m' = m"
  by (auto simp: checkAndSetBounds_def Let_def split: if_splits)

lemma via_check: "viaCheck m mmat \<Longrightarrow> via (\<lambda>x. x) m (checkAndSetBounds i j lb ub mmat)"
proof (cases "checkAndSetBounds i j lb ub mmat")
  case (Ok m')
  assume "viaCheck m mmat"
  then show ?thesis using Ok by (auto simp: via_def intro: viaCheck.step)
next
  case (Err e m')
  assume "viaCheck m mmat"
  then show ?thesis using checkAndSetBounds_Err [OF Err] Err by (simp add: via_def)
qed

lemma via_Ok: "viaCheck m (g s) \<Longrightarrow> via g m (Ok s)"
  by (simp add: via_def)

lemma via_Err: "viaCheck m (g s) \<Longrightarrow> via g m (Err e s)"
  by (simp add: via_def)

lemma via_if: "(c \<Longrightarrow> via g m a) \<Longrightarrow> (\<not> c \<Longrightarrow> via g m b) \<Longrightarrow> via g m (if c then a else b)"
  by simp

lemma via_let: "(\<And>x. x = a \<Longrightarrow> via g m (f x)) \<Longrightarrow> via g m (Let a f)"
  by simp

lemma via_option: "via g m a \<Longrightarrow> (\<And>v. via g m (f v)) \<Longrightarrow> via g m (case_option a f x)"
  by (cases x) simp_all

lemma via_prod: "(\<And>a b. p = (a, b) \<Longrightarrow> via g m (f a b)) \<Longrightarrow> via g m (case_prod f p)"
  by (cases p) simp

lemma via_wrap:
  "via g' m r \<Longrightarrow> (\<And>x. g (h1 x) = g' x) \<Longrightarrow> (\<And>x. g (h2 x) = g' x)
   \<Longrightarrow> via g m (case r of Ok x \<Rightarrow> Ok (h2 x) | Err e x \<Rightarrow> Err e (h1 x))"
  by (cases r) (simp_all add: via_def)

lemma via_map: "via g' m r \<Longrightarrow> (\<And>x. g (h x) = g' x) \<Longrightarrow> via g m (mapResult h r)"
  by (cases r) (simp_all add: via_def)

lemma via_bind: "via g m r \<Longrightarrow> (\<And>s. via g (g s) (f s)) \<Longrightarrow> via g m (bind_result r f)"
  by (cases r) (auto simp: via_def intro: viaCheck_trans)

lemma via_for_each:
  assumes "viaCheck m (g s)" and "\<And>x s'. via g (g s') (body x s')"
  shows "via g m (for_each body xs s)"
  using assms(1)
proof (induction xs arbitrary: s)
  case Nil
  then show ?case by (simp add: via_def)
next
  case (Cons x xs)
  have "viaCheck m (g (result_state (body x s)))"
    using assms(2) [of s x] Cons.prems by (auto simp: via_def intro: viaCheck_trans)
  then show ?case
    using Cons.IH [of "result_state (body x s)"] by (cases "body x s") (simp_all add: via_def)
qed

lemmas via_struct = via_if via_let via_option via_prod via_Ok via_Err

lemma set13BoundsHelper_via:
  "viaCheck m mmat \<Longrightarrow> via (\<lambda>x. x) m (set13BoundsHelper mol ext aid1 aid aid3 angle acc mmat)"
  unfolding set13BoundsHelper_def
  by (intro via_struct via_check)

lemma record13_mmat: "s13_mmat (record13 b1 b2 a ang s) = s13_mmat s"
  by (simp add: record13_def)

lemma set13RingStep_via:
  "via s13_mmat (s13_mmat s) (set13RingStep mol ext rSize t s)"
  unfolding set13RingStep_def
  by (intro via_struct via_wrap [where g' = "\<lambda>x. x"] set13BoundsHelper_via)
     (simp_all add: viaCheck.same record13_mmat split del: if_split)

lemma set13VisitedStep_via:
  "via s13_mmat (s13_mmat s) (set13VisitedStep mol ext aid2 p s)"
  unfolding set13VisitedStep_def
  by (intro via_struct via_wrap [where g' = "\<lambda>x. x"] set13BoundsHelper_via)
     (simp_all add: viaCheck.same record13_mmat split del: if_split)

lemma set13PlainStep_via:
  "via s13_mmat (s13_mmat s) (set13PlainStep mol ext aid2 p s)"
  unfolding set13PlainStep_def
  apply (intro via_struct via_wrap [where g' = "\<lambda>x. x"])
      apply (simp_all add: viaCheck.same record13_mmat split del: if_split)
  apply (intro via_struct set13BoundsHelper_via via_check viaCheck.same)
  done

lemma set13AtomStep_via:
  "via s13_mmat (s13_mmat s) (set13AtomStep mol ext aid2 s)"
  unfolding set13AtomStep_def
  by (intro via_struct via_for_each set13VisitedStep_via set13PlainStep_via)
     (simp_all add: viaCheck.same split del: if_split)

lemma set13Bounds_via:
  "via fst (fst st) (set13Bounds mol ext st)"
  unfolding set13Bounds_def Let_def
  by (intro via_struct via_map [where g' = s13_mmat] via_bind via_for_each
        set13RingStep_via set13AtomStep_via)
     (simp_all add: viaCheck.same split del: if_split)


lemma write14_via:
  "viaCheck m mmat \<Longrightarrow> via fst m (write14 aid1 aid4 dl du p mmat acc)"
  unfolding write14_def
  by (intro via_wrap [where g' = "\<lambda>x. x"] via_check) simp_all

lemma setInRing14Bounds_via:
  "viaCheck m (fst st) \<Longrightarrow> via fst m (setInRing14Bounds mol ext b1 b2 b3 dmat rSize st)"
  unfolding setInRing14Bounds_def
  by (intro via_struct write14_via) (simp_all split del: if_split)

lemma setTwoInSameRing14Bounds_via:
  "viaCheck m (fst st) \<Longrightarrow> via fst m (setTwoInSameRing14Bounds mol ext b1 b2 b3 dmat st)"
  unfolding setTwoInSameRing14Bounds_def
  by (intro via_struct write14_via) (simp_all split del: if_split)

lemma setTwoInDiffRing14Bounds_via:
  "viaCheck m (fst st) \<Longrightarrow> via fst m (setTwoInDiffRing14Bounds mol ext b1 b2 b3 dmat st)"
  unfolding setTwoInDiffRing14Bounds_def
  by (intro via_struct setInRing14Bounds_via) (simp_all split del: if_split)

lemma setShareRingBond14Bounds_via:
  "viaCheck m (fst st) \<Longrightarrow> via fst m (setShareRingBond14Bounds mol ext b1 b2 b3 dmat st)"
  unfolding setShareRingBond14Bounds_def
  by (intro via_struct setInRing14Bounds_via) (simp_all split del: if_split)

lemma setChain14Bounds_via:
  "viaCheck m (fst st) \<Longrightarrow> via fst m (setChain14Bounds mol ext b1 b2 b3 dmat fta st)"
  unfolding setChain14Bounds_def
  by (intro via_struct write14_via) (simp_all split del: if_split)

lemma setMacrocycleTwoInSameRing14Bounds_via:
  "viaCheck m (fst st) \<Longrightarrow> via fst m (setMacrocycleTwoInSameRing14Bounds mol ext b1 b2 b3 dmat st)"
  unfolding setMacrocycleTwoInSameRing14Bounds_def
  by (intro via_struct write14_via) (simp_all split del: if_split)

lemma setMacrocycleAllInSameRing14Bounds_via:
  "viaCheck m (fst st) \<Longrightarrow> via fst m (setMacrocycleAllInSameRing14Bounds mol ext b1 b2 b3 dmat st)"
  unfolding setMacrocycleAllInSameRing14Bounds_def
  by (intro via_struct write14_via) (simp_all split del: if_split)

lemma via_lift14:
  "via fst m r \<Longrightarrow> via (\<lambda>s. fst (s14_state s)) m (lift14 s r)"
  unfolding lift14_def by (rule via_map [where g' = fst]) simp_all

lemmas routines14_via = setInRing14Bounds_via setTwoInSameRing14Bounds_via
  setTwoInDiffRing14Bounds_via setShareRingBond14Bounds_via setChain14Bounds_via
  setMacrocycleTwoInSameRing14Bounds_via setMacrocycleAllInSameRing14Bounds_via

lemma set14RingStep_via:
  "via (\<lambda>s. fst (s14_state s)) (fst (s14_state s))
     (set14RingStep mol ext dmat um rSize t s)"
  unfolding set14RingStep_def
  by (intro via_struct via_lift14 via_wrap [where g' = fst] routines14_via)
     (simp_all add: viaCheck.same split del: if_split)

lemma set14PathStep_via:
  "via (\<lambda>s. fst (s14_state s)) (fst (s14_state s))
     (set14PathStep mol ext dmat um fta t s)"
  unfolding set14PathStep_def
  by (intro via_struct via_lift14 routines14_via)
     (simp_all add: viaCheck.same split del: if_split)

lemma set14Bounds_via:
  "via fst (fst st) (set14Bounds mol ext dmat um fta st)"
  unfolding set14Bounds_def Let_def
  by (intro via_struct via_map [where g' = "\<lambda>s. fst (s14_state s)"] via_bind via_for_each
        set14RingStep_via set14PathStep_via)
     (simp_all add: viaCheck.same split del: if_split)

lemma via_bool: "(b \<Longrightarrow> via g m t) \<Longrightarrow> (\<not> b \<Longrightarrow> via g m f) \<Longrightarrow> via g m (case_bool t f b)"
  by (cases b) simp_all

lemma set15Mark_mmat: "fst (result_state (set15Mark m a p q)) = m"
  by (simp add: set15Mark_def)

lemma via_check_mark:
  assumes "viaCheck m0 mmat"
  shows "via fst m0 (case checkAndSetBounds i j lb ub mmat of
                       Err e m \<Rightarrow> Err e (m, a)
                     | Ok m \<Rightarrow> set15Mark m a p q)"
proof (cases "checkAndSetBounds i j lb ub mmat")
  case (Ok m')
  then show ?thesis
    using assms by (auto simp: via_def set15Mark_mmat intro: viaCheck.step)
next
  case (Err e m')
  then show ?thesis
    using assms checkAndSetBounds_Err [OF Err] by (simp add: via_def)
qed

lemma set15Step_via:
  "via fst (fst st) (set15Step mol ext dmat b1 b2 b3 ty aid1 aid4 i st)"
  unfolding set15Step_def
  by (intro via_struct via_bool via_check_mark)
     (simp_all add: viaCheck.same split del: if_split)

lemma set15BoundsHelper_via:
  "via fst (fst st) (set15BoundsHelper mol ext b1 b2 b3 ty dmat st)"
  unfolding set15BoundsHelper_def
  by (intro via_struct via_for_each set15Step_via)
     (simp_all add: viaCheck.same split del: if_split)

lemma set15Bounds_via:
  "via fst (fst st) (set15Bounds mol ext dmat st)"
  unfolding set15Bounds_def
  by (intro via_for_each via_bind set15BoundsHelper_via) (simp_all add: viaCheck.same)

lemma set12Step_shape:
  "\<exists>u l. fst (set12Step mol ext sq st bid)
            = setLowerBound
                (setUpperBound (fst st) (beginAtomIdx (bonds mol ! bid)) (endAtomIdx (bonds mol ! bid)) u)
                (beginAtomIdx (bonds mol ! bid)) (endAtomIdx (bonds mol ! bid)) l"
  unfolding set12Step_def Let_def
  by (cases "getAtomTypes ext ! beginAtomIdx (bonds mol ! bid)";
      cases "getAtomTypes ext ! endAtomIdx (bonds mol ! bid)") auto

lemma bounds_of_other_pair:
  assumes "\<not> ((b = i \<and> e = j) \<or> (b = j \<and> e = i))" and "i \<noteq> j"
  shows "getUpperBound (setLowerBound (setUpperBound m b e u) b e l) i j = getUpperBound m i j"
    and "getLowerBound (setLowerBound (setUpperBound m b e u) b e l) i j = getLowerBound m i j"
  using assms
  by (auto simp: getUpperBound_def getLowerBound_def setUpperBound_def setLowerBound_def)

lemma set12Step_other:
  assumes "\<not> bondJoins (bonds mol ! k) i j" and "i \<noteq> j"
  shows "getUpperBound (fst (set12Step mol ext sq st k)) i j = getUpperBound (fst st) i j"
    and "getLowerBound (fst (set12Step mol ext sq st k)) i j = getLowerBound (fst st) i j"
proof -
  obtain u l where eq: "fst (set12Step mol ext sq st k)
      = setLowerBound (setUpperBound (fst st) (beginAtomIdx (bonds mol ! k))
          (endAtomIdx (bonds mol ! k)) u) (beginAtomIdx (bonds mol ! k)) (endAtomIdx (bonds mol ! k)) l"
    using set12Step_shape by blast
  have ne: "\<not> ((beginAtomIdx (bonds mol ! k) = i \<and> endAtomIdx (bonds mol ! k) = j)
              \<or> (beginAtomIdx (bonds mol ! k) = j \<and> endAtomIdx (bonds mol ! k) = i))"
    using assms(1) by (simp add: bondJoins_def)
  show "getUpperBound (fst (set12Step mol ext sq st k)) i j = getUpperBound (fst st) i j"
    unfolding eq by (rule bounds_of_other_pair(1) [OF ne assms(2)])
  show "getLowerBound (fst (set12Step mol ext sq st k)) i j = getLowerBound (fst st) i j"
    unfolding eq by (rule bounds_of_other_pair(2) [OF ne assms(2)])
qed

lemma set12Step_params:
  assumes "i = beginAtomIdx (bonds mol ! bid)" and "j = endAtomIdx (bonds mol ! bid)" and "i \<noteq> j"
      and "getAtomTypes ext ! i = Some p" and "getAtomTypes ext ! j = Some q"
      and "0 < bondTypeAsDouble (bonds mol ! bid)"
  shows "getUpperBound (fst (set12Step mol ext sq st bid)) i j
           = calcBondRestLength ext (bondTypeAsDouble (bonds mol ! bid)) p q
             + (if i \<in> sq \<or> j \<in> sq then 2 / 10 else 0) + DIST12_DELTA"
    and "getLowerBound (fst (set12Step mol ext sq st bid)) i j
           = calcBondRestLength ext (bondTypeAsDouble (bonds mol ! bid)) p q
             - (if i \<in> sq \<or> j \<in> sq then 2 / 10 else 0) - DIST12_DELTA"
  using assms unfolding set12Step_def Let_def
  by (auto simp: getUpperBound_def getLowerBound_def setUpperBound_def setLowerBound_def)

lemma set12Step_radii:
  assumes "i = beginAtomIdx (bonds mol ! bid)" and "j = endAtomIdx (bonds mol ! bid)" and "i \<noteq> j"
      and "getAtomTypes ext ! i = None \<or> getAtomTypes ext ! j = None
           \<or> \<not> 0 < bondTypeAsDouble (bonds mol ! bid)"
  shows "getUpperBound (fst (set12Step mol ext sq st bid)) i j
           = 15 / 10 * ((getRvdw ext (atomicNum (atoms mol ! i))
                         + getRvdw ext (atomicNum (atoms mol ! j))) / 2)"
    and "getLowerBound (fst (set12Step mol ext sq st bid)) i j
           = 5 / 10 * ((getRvdw ext (atomicNum (atoms mol ! i))
                        + getRvdw ext (atomicNum (atoms mol ! j))) / 2)"
  using assms unfolding set12Step_def Let_def
  by (auto simp: getUpperBound_def getLowerBound_def setUpperBound_def setLowerBound_def
      split: option.splits)

lemma set12_foldl:
  assumes "i \<noteq> j" and "\<forall>k \<in> set ks. k \<noteq> bid \<longrightarrow> \<not> bondJoins (bonds mol ! k) i j"
      and "\<And>s. getUpperBound (fst (set12Step mol ext sq s bid)) i j = U"
      and "\<And>s. getLowerBound (fst (set12Step mol ext sq s bid)) i j = L"
  shows "getUpperBound (fst (foldl (set12Step mol ext sq) st ks)) i j
           = (if bid \<in> set ks then U else getUpperBound (fst st) i j)
         \<and> getLowerBound (fst (foldl (set12Step mol ext sq) st ks)) i j
           = (if bid \<in> set ks then L else getLowerBound (fst st) i j)"
  using assms(2)
proof (induction ks arbitrary: st)
  case Nil
  then show ?case by simp
next
  case (Cons k ks)
  have rest: "\<forall>k \<in> set ks. k \<noteq> bid \<longrightarrow> \<not> bondJoins (bonds mol ! k) i j"
    using Cons.prems by simp
  note IH = Cons.IH [OF rest, of "set12Step mol ext sq st k"]
  show ?case
  proof (cases "k = bid")
    case True
    then show ?thesis using IH assms(3,4) by simp
  next
    case False
    then have "\<not> bondJoins (bonds mol ! k) i j" using Cons.prems by simp
    then show ?thesis
      using IH False set12Step_other [OF _ assms(1), of mol k ext sq st] by simp
  qed
qed

lemma set12Bounds_Ok:
  "set12Bounds mol ext st = Ok st' \<Longrightarrow>
     st' = foldl (set12Step mol ext (foldl (squishStep mol) {} [0..<getNumBonds mol])) st
             [0..<getNumBonds mol]"
  by (simp add: set12Bounds_def Let_def split: if_splits)

lemma set12Bounds_writes:
  assumes ok: "set12Bounds mol ext st = Ok st'" and bid: "bid < getNumBonds mol"
      and i: "i = beginAtomIdx (bonds mol ! bid)" and j: "j = endAtomIdx (bonds mol ! bid)"
      and ne: "i \<noteq> j"
      and only: "\<forall>k < getNumBonds mol. k \<noteq> bid \<longrightarrow> \<not> bondJoins (bonds mol ! k) i j"
  shows "\<forall>p q. getAtomTypes ext ! i = Some p \<and> getAtomTypes ext ! j = Some q
               \<and> 0 < bondTypeAsDouble (bonds mol ! bid) \<longrightarrow>
           getUpperBound (fst st') i j
             = calcBondRestLength ext (bondTypeAsDouble (bonds mol ! bid)) p q
               + (if i \<in> foldl (squishStep mol) {} [0..<getNumBonds mol]
                     \<or> j \<in> foldl (squishStep mol) {} [0..<getNumBonds mol] then 2 / 10 else 0)
               + DIST12_DELTA
           \<and> getLowerBound (fst st') i j
             = calcBondRestLength ext (bondTypeAsDouble (bonds mol ! bid)) p q
               - (if i \<in> foldl (squishStep mol) {} [0..<getNumBonds mol]
                     \<or> j \<in> foldl (squishStep mol) {} [0..<getNumBonds mol] then 2 / 10 else 0)
               - DIST12_DELTA"
    and "getAtomTypes ext ! i = None \<or> getAtomTypes ext ! j = None
           \<or> \<not> 0 < bondTypeAsDouble (bonds mol ! bid) \<longrightarrow>
           getUpperBound (fst st') i j
             = 15 / 10 * ((getRvdw ext (atomicNum (atoms mol ! i))
                           + getRvdw ext (atomicNum (atoms mol ! j))) / 2)
           \<and> getLowerBound (fst st') i j
             = 5 / 10 * ((getRvdw ext (atomicNum (atoms mol ! i))
                          + getRvdw ext (atomicNum (atoms mol ! j))) / 2)"
proof -
  let ?sq = "foldl (squishStep mol) {} [0..<getNumBonds mol]"
  have st': "st' = foldl (set12Step mol ext ?sq) st [0..<getNumBonds mol]"
    by (rule set12Bounds_Ok [OF ok])
  have only': "\<forall>k \<in> set [0..<getNumBonds mol]. k \<noteq> bid \<longrightarrow> \<not> bondJoins (bonds mol ! k) i j"
    using only by simp
  have mem: "bid \<in> set [0..<getNumBonds mol]" using bid by simp
  show "\<forall>p q. getAtomTypes ext ! i = Some p \<and> getAtomTypes ext ! j = Some q
               \<and> 0 < bondTypeAsDouble (bonds mol ! bid) \<longrightarrow>
           getUpperBound (fst st') i j
             = calcBondRestLength ext (bondTypeAsDouble (bonds mol ! bid)) p q
               + (if i \<in> ?sq \<or> j \<in> ?sq then 2 / 10 else 0) + DIST12_DELTA
           \<and> getLowerBound (fst st') i j
             = calcBondRestLength ext (bondTypeAsDouble (bonds mol ! bid)) p q
               - (if i \<in> ?sq \<or> j \<in> ?sq then 2 / 10 else 0) - DIST12_DELTA"
  proof (intro allI impI)
    fix p q
    assume H: "getAtomTypes ext ! i = Some p \<and> getAtomTypes ext ! j = Some q
               \<and> 0 < bondTypeAsDouble (bonds mol ! bid)"
    show "getUpperBound (fst st') i j
             = calcBondRestLength ext (bondTypeAsDouble (bonds mol ! bid)) p q
               + (if i \<in> ?sq \<or> j \<in> ?sq then 2 / 10 else 0) + DIST12_DELTA
           \<and> getLowerBound (fst st') i j
             = calcBondRestLength ext (bondTypeAsDouble (bonds mol ! bid)) p q
               - (if i \<in> ?sq \<or> j \<in> ?sq then 2 / 10 else 0) - DIST12_DELTA"
    proof -
      have u: "\<And>s. getUpperBound (fst (set12Step mol ext ?sq s bid)) i j
             = calcBondRestLength ext (bondTypeAsDouble (bonds mol ! bid)) p q
               + (if i \<in> ?sq \<or> j \<in> ?sq then 2 / 10 else 0) + DIST12_DELTA"
        using set12Step_params(1) [OF i j ne] H by blast
      have l: "\<And>s. getLowerBound (fst (set12Step mol ext ?sq s bid)) i j
             = calcBondRestLength ext (bondTypeAsDouble (bonds mol ! bid)) p q
               - (if i \<in> ?sq \<or> j \<in> ?sq then 2 / 10 else 0) - DIST12_DELTA"
        using set12Step_params(2) [OF i j ne] H by blast
      show ?thesis
        unfolding st' using set12_foldl [OF ne only' u l, of st] mem by simp
    qed
  qed
  show "getAtomTypes ext ! i = None \<or> getAtomTypes ext ! j = None
           \<or> \<not> 0 < bondTypeAsDouble (bonds mol ! bid) \<longrightarrow>
           getUpperBound (fst st') i j
             = 15 / 10 * ((getRvdw ext (atomicNum (atoms mol ! i))
                           + getRvdw ext (atomicNum (atoms mol ! j))) / 2)
           \<and> getLowerBound (fst st') i j
             = 5 / 10 * ((getRvdw ext (atomicNum (atoms mol ! i))
                          + getRvdw ext (atomicNum (atoms mol ! j))) / 2)"
  proof
    assume H: "getAtomTypes ext ! i = None \<or> getAtomTypes ext ! j = None
           \<or> \<not> 0 < bondTypeAsDouble (bonds mol ! bid)"
    show "getUpperBound (fst st') i j
             = 15 / 10 * ((getRvdw ext (atomicNum (atoms mol ! i))
                           + getRvdw ext (atomicNum (atoms mol ! j))) / 2)
           \<and> getLowerBound (fst st') i j
             = 5 / 10 * ((getRvdw ext (atomicNum (atoms mol ! i))
                          + getRvdw ext (atomicNum (atoms mol ! j))) / 2)"
    proof -
      have u: "\<And>s. getUpperBound (fst (set12Step mol ext ?sq s bid)) i j
             = 15 / 10 * ((getRvdw ext (atomicNum (atoms mol ! i))
                           + getRvdw ext (atomicNum (atoms mol ! j))) / 2)"
        by (rule set12Step_radii(1) [OF i j ne H])
      have l: "\<And>s. getLowerBound (fst (set12Step mol ext ?sq s bid)) i j
             = 5 / 10 * ((getRvdw ext (atomicNum (atoms mol ! i))
                          + getRvdw ext (atomicNum (atoms mol ! j))) / 2)"
        by (rule set12Step_radii(2) [OF i j ne H])
      show ?thesis
        unfolding st' using set12_foldl [OF ne only' u l, of st] mem by simp
    qed
  qed
qed

lemma low2_facts:
  "numRows low2 = 2" "getLowerBound low2 (Suc 0) 0 = 5 / 1000" "getUpperBound low2 (Suc 0) 0 = 1000"
  by (simp_all add: low2_def initBoundsMat_def lowerTrianglePairs_2 setLowerBound_def
      setUpperBound_def getLowerBound_def getUpperBound_def)

lemma twoDummyApart_passes:
  "twoDummyApartTopol
     = setLowerBoundVDW twoDummyApart extDummyApart True (getDistanceMat extDummyApart) low2"
  by (simp add: twoDummyApartTopol_def setTopolBounds_def runPasses_def MAX_NUM_BONDS_def
      twoDummyApart_def extDummyApart_def extDummy_def extConst_def low2_facts
      set12Bounds_def set13Bounds_def set13AtomStep_def set14Bounds_def set15Bounds_def
      chainTriples_def newComputedData_def mol_defs Let_def)

lemma twoDummyApart_vdw:
  "setLowerBoundVDW twoDummyApart extDummyApart True (getDistanceMat extDummyApart) low2
     = Ok (setLowerBound low2 (Suc 0) 0 0)"
  by (simp add: setLowerBoundVDW_def vdwStep_def low2_facts lowerTrianglePairs_2 tol_defs
      twoDummyApart_def extDummyApart_def extDummy_def extConst_def mol_defs Let_def)

lemma checkAndSetBounds_keeps_low:
  assumes "checkAndSetBounds i j lb ub m = Ok m'"
      and "getLowerBound m (Suc 0) 0 = 5 / 1000 \<or> getLowerBound m (Suc 0) 0 > DIST12_DELTA"
  shows "getLowerBound m' (Suc 0) 0 = 5 / 1000 \<or> getLowerBound m' (Suc 0) 0 > DIST12_DELTA"
  using assms
  by (auto simp: checkAndSetBounds_def Let_def getUpperBound_def getLowerBound_def
      setUpperBound_def setLowerBound_def tol_defs split: if_splits)

lemma viaCheck_keeps_low:
  assumes "viaCheck m m'"
      and "getLowerBound m (Suc 0) 0 = 5 / 1000 \<or> getLowerBound m (Suc 0) 0 > DIST12_DELTA"
  shows "getLowerBound m' (Suc 0) 0 = 5 / 1000 \<or> getLowerBound m' (Suc 0) 0 > DIST12_DELTA"
  using assms
  by (induction rule: viaCheck.induct) (auto dest: checkAndSetBounds_keeps_low)

lemma checkAndSetBounds_keeps:
  assumes "checkAndSetBounds i j lb ub m = Ok m'"
      and "getUpperBound m 0 (Suc 0) = 1000 \<or> getLowerBound m 0 (Suc 0) > DIST12_DELTA"
  shows "getUpperBound m' 0 (Suc 0) = 1000 \<or> getLowerBound m' 0 (Suc 0) > DIST12_DELTA"
  using assms
  by (auto simp: checkAndSetBounds_def Let_def getUpperBound_def getLowerBound_def
      setUpperBound_def setLowerBound_def tol_defs split: if_splits)

lemma viaCheck_keeps:
  assumes "viaCheck m m'"
      and "getUpperBound m 0 (Suc 0) = 1000 \<or> getLowerBound m 0 (Suc 0) > DIST12_DELTA"
  shows "getUpperBound m' 0 (Suc 0) = 1000 \<or> getLowerBound m' 0 (Suc 0) > DIST12_DELTA"
  using assms
  by (induction rule: viaCheck.induct) (auto dest: checkAndSetBounds_keeps)

lemma twoDummy12_facts:
  "\<exists>st. twoDummy12 = Ok st \<and> getLowerBound (fst st) 0 (Suc 0) = 0
        \<and> getUpperBound (fst st) 0 (Suc 0) = 0"
  by (simp add: twoDummy12_def set12Bounds_def set12Step_def squishStep_def twoDummy_def extDummy_def
      extConst_def freshMatrix_def newComputedData_def mkAtom_def singleBond_def getNumAtoms_def
      getNumBonds_def setUpperBound_def setLowerBound_def getUpperBound_def getLowerBound_def Let_def)

lemma cyclopropane12_run:
  "set12Bounds cyclopropane extCyclopropane (fresh3, newComputedData 3 3)
     = Ok (result_state cyclopropane12)"
  using is_ok_result_state [OF is_ok_bind_result [OF cyclopropane13_angles(1) [unfolded cyclopropane13_def]]]
  by (simp add: cyclopropane12_def)

text \<open>
  C3 as stated: after initialization every pass writes the matrix only through
  \<^verbatim>\<open>_checkAndSetBounds\<close>. This fails for Pass 1 and for Pass 5. \<^verbatim>\<open>set12Bounds\<close> calls
  \<^verbatim>\<open>setUpperBound\<close> and \<^verbatim>\<open>setLowerBound\<close> itself: on two bonded dummy atoms (no parameters,
  van der Waals radius 0) it leaves both bounds of the pair at 0; \<^verbatim>\<open>_checkAndSetBounds\<close>
  refuses these values on the initial matrix, and no sequence of its successful calls
  leads from the initial matrix to the one Pass 1 leaves. \<^verbatim>\<open>setLowerBoundVDW\<close> calls
  \<^verbatim>\<open>setLowerBound\<close> itself: on two dummy atoms that are not bonded, with a matrix
  initialised to the lower bound 0.005, Passes 1 to 4 write nothing and the whole run is
  the run of Pass 5, which replaces the lower bound 0.005 by the radius sum 0;
  \<^verbatim>\<open>_checkAndSetBounds\<close> refuses this value, and no sequence of its successful calls leads
  from the initial matrix to the one the run leaves.
\<close>

theorem direct_writes_counterexample:
  "is_ok twoDummy12
   \<and> getLowerBound (fst (result_state twoDummy12)) 0 1 = 0
   \<and> getUpperBound (fst (result_state twoDummy12)) 0 1 = 0
   \<and> getLowerBound (freshMatrix 2) 0 1 = 0
   \<and> getUpperBound (freshMatrix 2) 0 1 = 1000
   \<and> checkAndSetBounds 0 1 0 0 (freshMatrix 2) = Err InvariantViolation (freshMatrix 2)
   \<and> \<not> viaCheck (freshMatrix 2) (fst (result_state twoDummy12))
   \<and> twoDummyApartTopol
       = setLowerBoundVDW twoDummyApart extDummyApart True (getDistanceMat extDummyApart) low2
   \<and> is_ok twoDummyApartTopol
   \<and> getLowerBound low2 1 0 = 5 / 1000
   \<and> getLowerBound (result_state twoDummyApartTopol) 1 0 = 0
   \<and> checkAndSetBounds 1 0 0 1000 low2 = Err InvariantViolation low2
   \<and> \<not> viaCheck low2 (result_state twoDummyApartTopol)"
proof -
  obtain st where eq: "twoDummy12 = Ok st" and lb: "getLowerBound (fst st) 0 (Suc 0) = 0"
    and ub: "getUpperBound (fst st) 0 (Suc 0) = 0"
    using twoDummy12_facts by blast
  have "\<not> viaCheck (freshMatrix 2) (fst st)"
    using viaCheck_keeps [of "freshMatrix 2" "fst st"] lb ub
    by (auto simp: freshMatrix_def getUpperBound_def getLowerBound_def tol_defs)
  moreover have "getLowerBound (fst st) 0 1 = 0" "getUpperBound (fst st) 0 1 = 0"
    using lb ub by simp_all
  moreover have "getLowerBound (freshMatrix 2) 0 1 = 0" "getUpperBound (freshMatrix 2) 0 1 = 1000"
    by (simp_all add: freshMatrix_def getUpperBound_def getLowerBound_def)
  moreover have "checkAndSetBounds 0 1 0 0 (freshMatrix 2) = Err InvariantViolation (freshMatrix 2)"
    by (simp add: checkAndSetBounds_def)
  ultimately have pass1: "is_ok twoDummy12
   \<and> getLowerBound (fst (result_state twoDummy12)) 0 1 = 0
   \<and> getUpperBound (fst (result_state twoDummy12)) 0 1 = 0
   \<and> getLowerBound (freshMatrix 2) 0 1 = 0
   \<and> getUpperBound (freshMatrix 2) 0 1 = 1000
   \<and> checkAndSetBounds 0 1 0 0 (freshMatrix 2) = Err InvariantViolation (freshMatrix 2)
   \<and> \<not> viaCheck (freshMatrix 2) (fst (result_state twoDummy12))"
    by (simp add: eq)
  have run: "twoDummyApartTopol = Ok (setLowerBound low2 (Suc 0) 0 0)"
    by (simp only: twoDummyApart_passes twoDummyApart_vdw)
  have "\<not> viaCheck low2 (setLowerBound low2 (Suc 0) 0 0)"
    using viaCheck_keeps_low [of low2 "setLowerBound low2 (Suc 0) 0 0"]
    by (auto simp: low2_facts tol_defs)
  moreover have "checkAndSetBounds 1 0 0 1000 low2 = Err InvariantViolation low2"
    by (simp add: checkAndSetBounds_def low2_facts tol_defs)
  ultimately have pass5: "twoDummyApartTopol
       = setLowerBoundVDW twoDummyApart extDummyApart True (getDistanceMat extDummyApart) low2
   \<and> is_ok twoDummyApartTopol
   \<and> getLowerBound low2 1 0 = 5 / 1000
   \<and> getLowerBound (result_state twoDummyApartTopol) 1 0 = 0
   \<and> checkAndSetBounds 1 0 0 1000 low2 = Err InvariantViolation low2
   \<and> \<not> viaCheck low2 (result_state twoDummyApartTopol)"
    by (simp add: run twoDummyApart_vdw low2_facts)
  show ?thesis
    using pass1 pass5 by (simp only: simp_thms)
qed

text \<open>
  C3 as amended: Passes 2, 3 and 4 (\<^verbatim>\<open>set13Bounds\<close>, \<^verbatim>\<open>set14Bounds\<close>, \<^verbatim>\<open>set15Bounds\<close>) change
  the matrix only through \<^verbatim>\<open>_checkAndSetBounds\<close>: whether they return or throw, the matrix
  they leave is reached from the one they were given by successful calls of it. Pass 1
  and Pass 5 write the matrix themselves, with no check and whatever it held. After
  Pass 1 the pair of a bond between two different atoms, the only bond between them,
  has the bounds rest length plus and minus (squish + 0.01) when both atoms have
  parameters and the bond order is positive, and otherwise 1.5 and 0.5 times the mean of
  the two van der Waals radii. After Pass 5 every pair \<open>b < a\<close> whose lower bound was below
  0.01 has as lower bound the sum of the two van der Waals radii, scaled by 0.7 at
  distance 4, by 0.85 at distance 5 and by 1 otherwise.
\<close>

theorem passes_and_the_writer:
  "viaCheck (fst st) (fst (result_state (set13Bounds mol ext st)))
   \<and> viaCheck (fst st)
        (fst (result_state (set14Bounds mol ext distMatrix useMacrocycle14config forceTransAmides st)))
   \<and> viaCheck (fst st) (fst (result_state (set15Bounds mol ext distMatrix st)))
   \<and> (set12Bounds mol ext st = Ok st' \<and> bid < getNumBonds mol
        \<and> i = beginAtomIdx (bonds mol ! bid) \<and> j = endAtomIdx (bonds mol ! bid) \<and> i \<noteq> j
        \<and> (\<forall>k < getNumBonds mol. k \<noteq> bid \<longrightarrow> \<not> bondJoins (bonds mol ! k) i j)
      \<longrightarrow> (\<forall>p q. getAtomTypes ext ! i = Some p \<and> getAtomTypes ext ! j = Some q
                  \<and> 0 < bondTypeAsDouble (bonds mol ! bid) \<longrightarrow>
              getUpperBound (fst st') i j
                = calcBondRestLength ext (bondTypeAsDouble (bonds mol ! bid)) p q
                  + (if i \<in> foldl (squishStep mol) {} [0..<getNumBonds mol]
                        \<or> j \<in> foldl (squishStep mol) {} [0..<getNumBonds mol] then 2 / 10 else 0)
                  + DIST12_DELTA
              \<and> getLowerBound (fst st') i j
                = calcBondRestLength ext (bondTypeAsDouble (bonds mol ! bid)) p q
                  - (if i \<in> foldl (squishStep mol) {} [0..<getNumBonds mol]
                        \<or> j \<in> foldl (squishStep mol) {} [0..<getNumBonds mol] then 2 / 10 else 0)
                  - DIST12_DELTA)
          \<and> (getAtomTypes ext ! i = None \<or> getAtomTypes ext ! j = None
                \<or> \<not> 0 < bondTypeAsDouble (bonds mol ! bid) \<longrightarrow>
              getUpperBound (fst st') i j
                = 15 / 10 * ((getRvdw ext (atomicNum (atoms mol ! i))
                              + getRvdw ext (atomicNum (atoms mol ! j))) / 2)
              \<and> getLowerBound (fst st') i j
                = 5 / 10 * ((getRvdw ext (atomicNum (atoms mol ! i))
                             + getRvdw ext (atomicNum (atoms mol ! j))) / 2)))
   \<and> (setLowerBoundVDW mol ext flag distMatrix m0 = Ok m' \<and> b < a \<and> a < numRows m0
        \<and> getLowerBound m0 a b < DIST12_DELTA
      \<longrightarrow> getLowerBound m' a b
            = (if distMatrix (u32 (a * numRows m0 + b)) = 4 then 7 / 10
               else if distMatrix (u32 (a * numRows m0 + b)) = 5 then 85 / 100 else 1)
              * (getRvdw ext (atomicNum (atoms mol ! a)) + getRvdw ext (atomicNum (atoms mol ! b))))"
proof (intro conjI impI)
  show "viaCheck (fst st) (fst (result_state (set13Bounds mol ext st)))"
    using set13Bounds_via [of st mol ext] by (simp add: via_def)
  show "viaCheck (fst st)
        (fst (result_state (set14Bounds mol ext distMatrix useMacrocycle14config forceTransAmides st)))"
    using set14Bounds_via [of st mol ext distMatrix useMacrocycle14config forceTransAmides]
    by (simp add: via_def)
  show "viaCheck (fst st) (fst (result_state (set15Bounds mol ext distMatrix st)))"
    using set15Bounds_via [of st mol ext distMatrix] by (simp add: via_def)
next
  assume H: "set12Bounds mol ext st = Ok st' \<and> bid < getNumBonds mol
        \<and> i = beginAtomIdx (bonds mol ! bid) \<and> j = endAtomIdx (bonds mol ! bid) \<and> i \<noteq> j
        \<and> (\<forall>k < getNumBonds mol. k \<noteq> bid \<longrightarrow> \<not> bondJoins (bonds mol ! k) i j)"
  then have ok: "set12Bounds mol ext st = Ok st'" and bid: "bid < getNumBonds mol"
    and i: "i = beginAtomIdx (bonds mol ! bid)" and j: "j = endAtomIdx (bonds mol ! bid)"
    and ne: "i \<noteq> j"
    and only: "\<forall>k < getNumBonds mol. k \<noteq> bid \<longrightarrow> \<not> bondJoins (bonds mol ! k) i j"
    by blast+
  show "\<forall>p q. getAtomTypes ext ! i = Some p \<and> getAtomTypes ext ! j = Some q
                  \<and> 0 < bondTypeAsDouble (bonds mol ! bid) \<longrightarrow>
              getUpperBound (fst st') i j
                = calcBondRestLength ext (bondTypeAsDouble (bonds mol ! bid)) p q
                  + (if i \<in> foldl (squishStep mol) {} [0..<getNumBonds mol]
                        \<or> j \<in> foldl (squishStep mol) {} [0..<getNumBonds mol] then 2 / 10 else 0)
                  + DIST12_DELTA
              \<and> getLowerBound (fst st') i j
                = calcBondRestLength ext (bondTypeAsDouble (bonds mol ! bid)) p q
                  - (if i \<in> foldl (squishStep mol) {} [0..<getNumBonds mol]
                        \<or> j \<in> foldl (squishStep mol) {} [0..<getNumBonds mol] then 2 / 10 else 0)
                  - DIST12_DELTA"
    by (rule set12Bounds_writes(1) [OF ok bid i j ne only])
  have "getAtomTypes ext ! i = None \<or> getAtomTypes ext ! j = None
                \<or> \<not> 0 < bondTypeAsDouble (bonds mol ! bid) \<longrightarrow>
              getUpperBound (fst st') i j
                = 15 / 10 * ((getRvdw ext (atomicNum (atoms mol ! i))
                              + getRvdw ext (atomicNum (atoms mol ! j))) / 2)
              \<and> getLowerBound (fst st') i j
                = 5 / 10 * ((getRvdw ext (atomicNum (atoms mol ! i))
                             + getRvdw ext (atomicNum (atoms mol ! j))) / 2)"
    by (rule set12Bounds_writes(2) [OF ok bid i j ne only])
  moreover assume "getAtomTypes ext ! i = None \<or> getAtomTypes ext ! j = None
                \<or> \<not> 0 < bondTypeAsDouble (bonds mol ! bid)"
  ultimately show "getUpperBound (fst st') i j
                = 15 / 10 * ((getRvdw ext (atomicNum (atoms mol ! i))
                              + getRvdw ext (atomicNum (atoms mol ! j))) / 2)"
    and "getLowerBound (fst st') i j
                = 5 / 10 * ((getRvdw ext (atomicNum (atoms mol ! i))
                             + getRvdw ext (atomicNum (atoms mol ! j))) / 2)"
    by blast+
next
  assume "setLowerBoundVDW mol ext flag distMatrix m0 = Ok m' \<and> b < a \<and> a < numRows m0
        \<and> getLowerBound m0 a b < DIST12_DELTA"
  then show "getLowerBound m' a b
            = (if distMatrix (u32 (a * numRows m0 + b)) = 4 then 7 / 10
               else if distMatrix (u32 (a * numRows m0 + b)) = 5 then 85 / 100 else 1)
              * (getRvdw ext (atomicNum (atoms mol ! a)) + getRvdw ext (atomicNum (atoms mol ! b)))"
    using setLowerBoundVDW_bounds(1) [of mol ext flag distMatrix m0 m' b a] by simp
qed

theorem passes_and_the_writer_witness:
  "getUpperBound (fst (result_state cyclopropane12)) 0 1 = 151 / 100
   \<and> getLowerBound (fst (result_state cyclopropane12)) 0 1 = 149 / 100
   \<and> getLowerBound
       (result_state (setLowerBoundVDW twoHelium extHelium True (getDistanceMat extHelium) zero2)) 1 0
       = 28 / 10"
  using passes_and_the_writer [where mol = cyclopropane and ext = extCyclopropane
      and st = "(fresh3, newComputedData 3 3)" and st' = "result_state cyclopropane12"
      and bid = 0 and i = 0 and j = 1]
    passes_and_the_writer [where mol = twoHelium and ext = extHelium
      and flag = True and distMatrix = "getDistanceMat extHelium" and ?m0.0 = zero2
      and m' = "result_state (setLowerBoundVDW twoHelium extHelium True (getDistanceMat extHelium) zero2)"
      and a = 1 and b = 0]
    is_ok_result_state [OF zero2_vdw_ok] cyclopropane12_run
  by (simp add: zero2_facts tol_defs extHelium_def twoHelium_def extCyclopropane_def
      cyclopropane_def squishStep_def mol_defs less_Suc_eq)

subsection \<open>C5: amide and ester paths in a chain\<close>

lemma chain14Case_amide:
  assumes "bondType (bonds mol ! b2) = SINGLE"
      and "checkAmideEster14 mol b1 b3 a1 a2 a3 a4 \<or> checkAmideEster14 mol b3 b1 a4 a3 a2 a1"
  shows "chain14Case mol ext True b1 b2 b3 a1 a2 a3 a4 acc =
           (let T = compute14DistTrans ext (bondLengths acc ! b1) (bondLengths acc ! b2)
                      (bondLengths acc ! b3) (symmGet (bondAngles acc) b1 b2)
                      (symmGet (bondAngles acc) b2 b3);
                C = compute14DistCis ext (bondLengths acc ! b1) (bondLengths acc ! b2)
                      (bondLengths acc ! b3) (symmGet (bondAngles acc) b1 b2)
                      (symmGet (bondAngles acc) b2 b3)
            in if secondaryAmideH mol a1 a2 \<or> secondaryAmideH mol a4 a3 then
                 (T - GEN_DIST_TOL, T + GEN_DIST_TOL, TRANS, addTransPath (getNumBonds mol) b1 b2 b3 acc)
               else
                 (C - GEN_DIST_TOL, C + GEN_DIST_TOL, CIS, addCisPath (getNumBonds mol) b1 b2 b3 acc))"
  using assms
  by (auto simp: chain14Case_def Let_def checkAmideEster14_def)

lemma widenIfClose_tol [simp]:
  "widenIfClose (d - GEN_DIST_TOL, d + GEN_DIST_TOL) = (d - GEN_DIST_TOL, d + GEN_DIST_TOL)"
  by (simp add: widenIfClose_def tol_defs)

lemma setChain14Bounds_amide:
  assumes "path14Atoms mol (snd st) b1 b2 b3 = Some (a1, a2, a3, a4)"
      and "a1 < getNumAtoms mol" and "a4 < getNumAtoms mol"
      and "symmGet (bondAngles (snd st)) b1 b2 > 0" and "symmGet (bondAngles (snd st)) b2 b3 > 0"
      and "bondType (bonds mol ! b2) = SINGLE"
      and "checkAmideEster14 mol b1 b3 a1 a2 a3 a4 \<or> checkAmideEster14 mol b3 b1 a4 a3 a2 a1"
  shows "setChain14Bounds mol ext b1 b2 b3 dmat True st =
           (let T = compute14DistTrans ext (bondLengths (snd st) ! b1) (bondLengths (snd st) ! b2)
                      (bondLengths (snd st) ! b3) (symmGet (bondAngles (snd st)) b1 b2)
                      (symmGet (bondAngles (snd st)) b2 b3);
                C = compute14DistCis ext (bondLengths (snd st) ! b1) (bondLengths (snd st) ! b2)
                      (bondLengths (snd st) ! b3) (symmGet (bondAngles (snd st)) b1 b2)
                      (symmGet (bondAngles (snd st)) b2 b3)
            in if secondaryAmideH mol a1 a2 \<or> secondaryAmideH mol a4 a3 then
                 write14 a1 a4 (T - GEN_DIST_TOL) (T + GEN_DIST_TOL)
                   \<lparr>bid1 = b1, bid2 = b2, bid3 = b3, ptype = TRANS\<rparr> (fst st)
                   (addTransPath (getNumBonds mol) b1 b2 b3 (snd st))
               else
                 write14 a1 a4 (C - GEN_DIST_TOL) (C + GEN_DIST_TOL)
                   \<lparr>bid1 = b1, bid2 = b2, bid3 = b3, ptype = CIS\<rparr> (fst st)
                   (addCisPath (getNumBonds mol) b1 b2 b3 (snd st)))"
  using assms
  by (simp add: setChain14Bounds_def chain14Case_amide Let_def)

lemma write14_fresh:
  assumes "getLowerBound m a1 a4 \<le> DIST12_DELTA" and "MAX_UPPER \<le> getUpperBound m a1 a4"
      and "DIST12_DELTA < dl" and "dl < du" and "a1 \<noteq> a4"
  shows "is_ok (write14 a1 a4 dl du p m acc)"
    and "getLowerBound (fst (result_state (write14 a1 a4 dl du p m acc))) a1 a4 = dl"
    and "getUpperBound (fst (result_state (write14 a1 a4 dl du p m acc))) a1 a4 = du"
    and "snd (result_state (write14 a1 a4 dl du p m acc)) = acc\<lparr>paths14 := paths14 acc @ [p]\<rparr>"
  using assms
  by (simp_all add: write14_def checkAndSetBounds_def Let_def)

lemma nMethylAcetamide13_facts:
  "\<exists>st. passes12 nMethylAcetamide (extConst 6 nMethylAcetamideDist) = Ok st
      \<and> path14Atoms nMethylAcetamide (snd st) 0 (Suc 0) 3 = Some (0, Suc 0, 2, 4)
      \<and> symmGet (bondAngles (snd st)) 0 (Suc 0) > 0 \<and> symmGet (bondAngles (snd st)) (Suc 0) 3 > 0
      \<and> getLowerBound (fst st) 0 4 = 0 \<and> getUpperBound (fst st) 0 4 = 1000"
  by (simp add: ext_defs nMethylAcetamide_def mol_defs matrix_defs pass12_defs pass13_defs
      pass14_defs Let_def)

lemma nMethylAcetamide13_eq:
  "passes12 nMethylAcetamide (extConst 6 nMethylAcetamideDist) = Ok nMethylAcetamide13"
  using nMethylAcetamide13_facts by (auto simp: nMethylAcetamide13_def)

lemma nMethylAcetamide13_state:
  "path14Atoms nMethylAcetamide (snd nMethylAcetamide13) 0 (Suc 0) 3 = Some (0, Suc 0, 2, 4)"
  "symmGet (bondAngles (snd nMethylAcetamide13)) 0 (Suc 0) > 0"
  "symmGet (bondAngles (snd nMethylAcetamide13)) (Suc 0) 3 > 0"
  "getLowerBound (fst nMethylAcetamide13) 0 4 = 0"
  "getUpperBound (fst nMethylAcetamide13) 0 4 = 1000"
  using nMethylAcetamide13_facts by (auto simp: nMethylAcetamide13_eq)

lemma nMethylAcetamide_pattern:
  "checkAmideEster14 nMethylAcetamide 3 0 4 2 (Suc 0) 0" "secondaryAmideH nMethylAcetamide 4 2"
  "bondType (bonds nMethylAcetamide ! Suc 0) = SINGLE" "getNumAtoms nMethylAcetamide = 6"
  by (simp_all add: nMethylAcetamide_def mol_defs pass14_defs)

lemma setChain14Bounds_amide_trans:
  assumes "path14Atoms mol (snd st) b1 b2 b3 = Some (a1, a2, a3, a4)"
      and "a1 < getNumAtoms mol" and "a4 < getNumAtoms mol"
      and "symmGet (bondAngles (snd st)) b1 b2 > 0" and "symmGet (bondAngles (snd st)) b2 b3 > 0"
      and "bondType (bonds mol ! b2) = SINGLE"
      and "checkAmideEster14 mol b1 b3 a1 a2 a3 a4 \<or> checkAmideEster14 mol b3 b1 a4 a3 a2 a1"
      and "secondaryAmideH mol a1 a2 \<or> secondaryAmideH mol a4 a3"
  shows "setChain14Bounds mol ext b1 b2 b3 dmat True st =
           write14 a1 a4 (chainTrans ext (snd st) b1 b2 b3 - 6 / 100)
             (chainTrans ext (snd st) b1 b2 b3 + 6 / 100)
             \<lparr>bid1 = b1, bid2 = b2, bid3 = b3, ptype = TRANS\<rparr> (fst st)
             (addTransPath (getNumBonds mol) b1 b2 b3 (snd st))"
  using assms
  by (simp add: setChain14Bounds_amide Let_def chainTrans_def GEN_DIST_TOL_def)

lemma setChain14Bounds_amide_cis:
  assumes "path14Atoms mol (snd st) b1 b2 b3 = Some (a1, a2, a3, a4)"
      and "a1 < getNumAtoms mol" and "a4 < getNumAtoms mol"
      and "symmGet (bondAngles (snd st)) b1 b2 > 0" and "symmGet (bondAngles (snd st)) b2 b3 > 0"
      and "bondType (bonds mol ! b2) = SINGLE"
      and "checkAmideEster14 mol b1 b3 a1 a2 a3 a4 \<or> checkAmideEster14 mol b3 b1 a4 a3 a2 a1"
      and "\<not> (secondaryAmideH mol a1 a2 \<or> secondaryAmideH mol a4 a3)"
  shows "setChain14Bounds mol ext b1 b2 b3 dmat True st =
           write14 a1 a4 (chainCis ext (snd st) b1 b2 b3 - 6 / 100)
             (chainCis ext (snd st) b1 b2 b3 + 6 / 100)
             \<lparr>bid1 = b1, bid2 = b2, bid3 = b3, ptype = CIS\<rparr> (fst st)
             (addCisPath (getNumBonds mol) b1 b2 b3 (snd st))"
  using assms
  by (simp add: setChain14Bounds_amide Let_def chainCis_def GEN_DIST_TOL_def)

lemma write14_unset:
  assumes "getLowerBound m a1 a4 \<le> DIST12_DELTA" and "MAX_UPPER \<le> getUpperBound m a1 a4"
      and "DIST12_DELTA < d - 6 / 100" and "a1 \<noteq> a4"
  shows "\<exists>m'. write14 a1 a4 (d - 6 / 100) (d + 6 / 100) p m acc
                 = Ok (m', acc\<lparr>paths14 := paths14 acc @ [p]\<rparr>)
              \<and> getLowerBound m' a1 a4 = d - 6 / 100 \<and> getUpperBound m' a1 a4 = d + 6 / 100"
  using assms
  by (simp add: write14_def checkAndSetBounds_def Let_def)

lemma pathIds_added:
  "pathId nb b1 b2 b3 \<in> transPaths (addTransPath nb b1 b2 b3 acc)"
  "pathId nb b3 b2 b1 \<in> transPaths (addTransPath nb b1 b2 b3 acc)"
  "pathId nb b1 b2 b3 \<in> cisPaths (addCisPath nb b1 b2 b3 acc)"
  "pathId nb b3 b2 b1 \<in> cisPaths (addCisPath nb b1 b2 b3 acc)"
  by (simp_all add: addTransPath_def addCisPath_def)

lemma acetamide13_facts:
  "\<exists>st. passes12 acetamide (extConst 9 acetamideDist) = Ok st
      \<and> path14Atoms acetamide (snd st) 0 (Suc 0) 3 = Some (0, Suc 0, 2, 4)
      \<and> getLowerBound (fst st) 4 0 = 0 \<and> getUpperBound (fst st) 4 0 = 1000
      \<and> chainTrans (extConst 9 acetamideDist) (snd st) 0 (Suc 0) 3 = 39 / 10
      \<and> (\<exists>st'. setChain14Bounds acetamide (extConst 9 acetamideDist) 0 (Suc 0) 3 acetamideDist True st
                   = Ok st'
                 \<and> getLowerBound (fst st') 4 0 = 13 / 5 \<and> getUpperBound (fst st') 4 0 = 39 / 10
                 \<and> ptype (last (paths14 (snd st'))) = OTHER)"
  by (simp add: ext_defs acetamide_def mol_defs matrix_defs pass12_defs pass13_defs pass14_defs
      chainTrans_def Let_def)

lemma acetamide13_eq: "passes12 acetamide (extConst 9 acetamideDist) = Ok acetamide13"
  using acetamide13_facts by (auto simp: acetamide13_def)

lemma acetamide_atoms:
  "atomicNum (atoms acetamide ! 0) = 8" "atomicNum (atoms acetamide ! 1) = 6"
  "atomicNum (atoms acetamide ! 2) = 7" "atomicNum (atoms acetamide ! 4) = 1"
  "totalNumHs (atoms acetamide ! 2) = 2"
  "bondType (bonds acetamide ! Suc 0) = SINGLE" "bondType (bonds acetamide ! 0) = DOUBLE"
  by (simp_all add: acetamide_def mol_defs)

text \<open>
  C5 as stated, in its particular case: for acetamide with \<^verbatim>\<open>forceTransAmides = true\<close> the
  bounds between the amide hydrogen and the carbonyl oxygen are
  \<^verbatim>\<open>compute14DistTrans\<close> minus and plus 0.06. This fails: the nitrogen of acetamide
  carries two hydrogens, so the path O0=C1-N2-H4 does not match the amide pattern, which
  asks for exactly one. After Passes 1 and 2 the chain routine, called as Pass 3 calls
  it, writes the lower bound 2.6 (the cis distance) and the upper bound 3.9 (the trans
  distance) and tags the path \<open>OTHER\<close>.
\<close>

theorem acetamide_amide_hydrogen_counterexample:
  "path14Atoms acetamide (snd acetamide13) 0 1 3 = Some (0, 1, 2, 4)
   \<and> atomicNum (atoms acetamide ! 0) = 8 \<and> atomicNum (atoms acetamide ! 2) = 7
   \<and> atomicNum (atoms acetamide ! 4) = 1 \<and> totalNumHs (atoms acetamide ! 2) = 2
   \<and> bondType (bonds acetamide ! 1) = SINGLE
   \<and> chainTrans (extConst 9 acetamideDist) (snd acetamide13) 0 1 3 = 39 / 10
   \<and> is_ok acetamideHO
   \<and> getLowerBound (fst (result_state acetamideHO)) 4 0 = 13 / 5
   \<and> getUpperBound (fst (result_state acetamideHO)) 4 0 = 39 / 10
   \<and> ptype (last (paths14 (snd (result_state acetamideHO)))) = OTHER"
proof -
  obtain st' where
    "setChain14Bounds acetamide (extConst 9 acetamideDist) 0 (Suc 0) 3 acetamideDist True acetamide13
       = Ok st'"
    "getLowerBound (fst st') 4 0 = 13 / 5" "getUpperBound (fst st') 4 0 = 39 / 10"
    "ptype (last (paths14 (snd st'))) = OTHER"
    using acetamide13_facts by (auto simp: acetamide13_eq)
  moreover have "path14Atoms acetamide (snd acetamide13) 0 (Suc 0) 3 = Some (0, Suc 0, 2, 4)"
    "chainTrans (extConst 9 acetamideDist) (snd acetamide13) 0 (Suc 0) 3 = 39 / 10"
    using acetamide13_facts by (auto simp: acetamide13_eq)
  ultimately show ?thesis
    by (simp add: acetamideHO_def acetamide_atoms)
qed

text \<open>
  C5 as amended: let a chain 1-4 path \<open>a1-a2-a3-a4\<close> have a SINGLE middle bond and match
  the amide/ester pattern in one of its two directions, with positive bond angles and an
  unset pair \<open>(a1, a4)\<close>, and let \<^verbatim>\<open>forceTransAmides\<close> be true. If an end atom is the
  hydrogen of a secondary amide nitrogen (a nitrogen of degree 3 with exactly one
  hydrogen) next to it on the path, the routine writes the lower bound
  \<^verbatim>\<open>compute14DistTrans - 0.06\<close> and the upper bound \<^verbatim>\<open>compute14DistTrans + 0.06\<close>, tags
  the path \<open>TRANS\<close> and adds it to \<open>transPaths\<close> in both directions; otherwise it writes
  \<^verbatim>\<open>compute14DistCis - 0.06\<close> and \<^verbatim>\<open>compute14DistCis + 0.06\<close>, tags the path \<open>CIS\<close> and
  adds it to \<open>cisPaths\<close>. (The lower bound has to exceed \<open>DIST12_DELTA\<close> for the write to
  succeed.) The particular case is a secondary amide such as N-methylacetamide, not
  acetamide, whose nitrogen carries two hydrogens.
\<close>

theorem chain14_amide_bounds:
  assumes "path14Atoms mol (snd st) b1 b2 b3 = Some (a1, a2, a3, a4)"
      and "a1 < getNumAtoms mol" and "a4 < getNumAtoms mol"
      and "symmGet (bondAngles (snd st)) b1 b2 > 0" and "symmGet (bondAngles (snd st)) b2 b3 > 0"
      and "bondType (bonds mol ! b2) = SINGLE"
      and "checkAmideEster14 mol b1 b3 a1 a2 a3 a4 \<or> checkAmideEster14 mol b3 b1 a4 a3 a2 a1"
      and "getLowerBound (fst st) a1 a4 \<le> DIST12_DELTA"
      and "MAX_UPPER \<le> getUpperBound (fst st) a1 a4"
      and "a1 \<noteq> a4"
  shows "((secondaryAmideH mol a1 a2 \<or> secondaryAmideH mol a4 a3) \<and>
           DIST12_DELTA < chainTrans ext (snd st) b1 b2 b3 - 6 / 100 \<longrightarrow>
           (\<exists>m'. setChain14Bounds mol ext b1 b2 b3 dmat True st =
                   Ok (m', (addTransPath (getNumBonds mol) b1 b2 b3 (snd st))
                             \<lparr>paths14 := paths14 (snd st)
                                @ [\<lparr>bid1 = b1, bid2 = b2, bid3 = b3, ptype = TRANS\<rparr>]\<rparr>)
                 \<and> getLowerBound m' a1 a4 = chainTrans ext (snd st) b1 b2 b3 - 6 / 100
                 \<and> getUpperBound m' a1 a4 = chainTrans ext (snd st) b1 b2 b3 + 6 / 100)
           \<and> pathId (getNumBonds mol) b1 b2 b3
                \<in> transPaths (addTransPath (getNumBonds mol) b1 b2 b3 (snd st))
           \<and> pathId (getNumBonds mol) b3 b2 b1
                \<in> transPaths (addTransPath (getNumBonds mol) b1 b2 b3 (snd st)))
       \<and> (\<not> (secondaryAmideH mol a1 a2 \<or> secondaryAmideH mol a4 a3) \<and>
           DIST12_DELTA < chainCis ext (snd st) b1 b2 b3 - 6 / 100 \<longrightarrow>
           (\<exists>m'. setChain14Bounds mol ext b1 b2 b3 dmat True st =
                   Ok (m', (addCisPath (getNumBonds mol) b1 b2 b3 (snd st))
                             \<lparr>paths14 := paths14 (snd st)
                                @ [\<lparr>bid1 = b1, bid2 = b2, bid3 = b3, ptype = CIS\<rparr>]\<rparr>)
                 \<and> getLowerBound m' a1 a4 = chainCis ext (snd st) b1 b2 b3 - 6 / 100
                 \<and> getUpperBound m' a1 a4 = chainCis ext (snd st) b1 b2 b3 + 6 / 100)
           \<and> pathId (getNumBonds mol) b1 b2 b3
                \<in> cisPaths (addCisPath (getNumBonds mol) b1 b2 b3 (snd st))
           \<and> pathId (getNumBonds mol) b3 b2 b1
                \<in> cisPaths (addCisPath (getNumBonds mol) b1 b2 b3 (snd st)))"
proof (intro conjI impI)
  assume h: "(secondaryAmideH mol a1 a2 \<or> secondaryAmideH mol a4 a3) \<and>
           DIST12_DELTA < chainTrans ext (snd st) b1 b2 b3 - 6 / 100"
  have eq: "setChain14Bounds mol ext b1 b2 b3 dmat True st =
           write14 a1 a4 (chainTrans ext (snd st) b1 b2 b3 - 6 / 100)
             (chainTrans ext (snd st) b1 b2 b3 + 6 / 100)
             \<lparr>bid1 = b1, bid2 = b2, bid3 = b3, ptype = TRANS\<rparr> (fst st)
             (addTransPath (getNumBonds mol) b1 b2 b3 (snd st))"
    using setChain14Bounds_amide_trans [OF assms(1-7)] h by blast
  show "\<exists>m'. setChain14Bounds mol ext b1 b2 b3 dmat True st =
                   Ok (m', (addTransPath (getNumBonds mol) b1 b2 b3 (snd st))
                             \<lparr>paths14 := paths14 (snd st)
                                @ [\<lparr>bid1 = b1, bid2 = b2, bid3 = b3, ptype = TRANS\<rparr>]\<rparr>)
                 \<and> getLowerBound m' a1 a4 = chainTrans ext (snd st) b1 b2 b3 - 6 / 100
                 \<and> getUpperBound m' a1 a4 = chainTrans ext (snd st) b1 b2 b3 + 6 / 100"
    unfolding eq
    using write14_unset [OF assms(8,9) _ assms(10), of "chainTrans ext (snd st) b1 b2 b3"
        "\<lparr>bid1 = b1, bid2 = b2, bid3 = b3, ptype = TRANS\<rparr>"
        "addTransPath (getNumBonds mol) b1 b2 b3 (snd st)"] h
    by (simp add: addTransPath_def)
next
  assume h: "\<not> (secondaryAmideH mol a1 a2 \<or> secondaryAmideH mol a4 a3) \<and>
           DIST12_DELTA < chainCis ext (snd st) b1 b2 b3 - 6 / 100"
  have eq: "setChain14Bounds mol ext b1 b2 b3 dmat True st =
           write14 a1 a4 (chainCis ext (snd st) b1 b2 b3 - 6 / 100)
             (chainCis ext (snd st) b1 b2 b3 + 6 / 100)
             \<lparr>bid1 = b1, bid2 = b2, bid3 = b3, ptype = CIS\<rparr> (fst st)
             (addCisPath (getNumBonds mol) b1 b2 b3 (snd st))"
    using setChain14Bounds_amide_cis [OF assms(1-7)] h by blast
  show "\<exists>m'. setChain14Bounds mol ext b1 b2 b3 dmat True st =
                   Ok (m', (addCisPath (getNumBonds mol) b1 b2 b3 (snd st))
                             \<lparr>paths14 := paths14 (snd st)
                                @ [\<lparr>bid1 = b1, bid2 = b2, bid3 = b3, ptype = CIS\<rparr>]\<rparr>)
                 \<and> getLowerBound m' a1 a4 = chainCis ext (snd st) b1 b2 b3 - 6 / 100
                 \<and> getUpperBound m' a1 a4 = chainCis ext (snd st) b1 b2 b3 + 6 / 100"
    unfolding eq
    using write14_unset [OF assms(8,9) _ assms(10), of "chainCis ext (snd st) b1 b2 b3"
        "\<lparr>bid1 = b1, bid2 = b2, bid3 = b3, ptype = CIS\<rparr>"
        "addCisPath (getNumBonds mol) b1 b2 b3 (snd st)"] h
    by (simp add: addCisPath_def)
qed (rule pathIds_added)+

theorem chain14_amide_bounds_witness:
  "is_ok nMethylAcetamideHO
   \<and> getLowerBound (fst (result_state nMethylAcetamideHO)) 0 4 = 39 / 10 - 6 / 100
   \<and> getUpperBound (fst (result_state nMethylAcetamideHO)) 0 4 = 39 / 10 + 6 / 100
   \<and> ptype (last (paths14 (snd (result_state nMethylAcetamideHO)))) = TRANS"
  using chain14_amide_bounds [of nMethylAcetamide nMethylAcetamide13 0 1 3 0 1 2 4
      "extConst 6 nMethylAcetamideDist" nMethylAcetamideDist]
  by (auto simp: nMethylAcetamide13_state nMethylAcetamide_pattern nMethylAcetamideHO_def
      chainTrans_def extConst_def tol_defs)


end
